theory Spec2Isabelle
  imports Complex_Main "HOL-Library.AList"
begin

section \<open>Values exchanged with the outside: JSON-shaped Python objects\<close>

text \<open>
  \<^verbatim>\<open>to_json_dict\<close> produces, and \<^verbatim>\<open>from_json_dict\<close> consumes, plain Python
  dicts, lists, strings, numbers and booleans.  A dict is an association list that is
  read with \<^const>\<open>map_of\<close>; \<^verbatim>\<open>d[k] = v\<close> is \<^const>\<open>AList.update\<close> and
  \<^verbatim>\<open>d.pop(k)\<close> is \<^const>\<open>AList.delete\<close>.  Python floats are modelled by reals: the
  properties below only store, copy and compare them.
\<close>

datatype json =
    JNull
  | JBool bool
  | JInt int
  | JFloat real
  | JStr string
  | JList "json list"
  | JDict "(string \<times> json) list"

type_synonym pydict = "(string \<times> json) list"

text \<open>
  Exceptions are values.  \<^verbatim>\<open>ValidationError\<close> is what a pydantic constructor raises,
  \<^verbatim>\<open>NoDiagramOpen\<close> is the manager's \<^verbatim>\<open>ValueError("No diagram open")\<close>.
\<close>

datatype error =
    ValidationError
  | TypeError
  | NoDiagramOpen
  | ValueError string

definition bind :: "error + 'a \<Rightarrow> ('a \<Rightarrow> error + 'b) \<Rightarrow> error + 'b" where
  "bind r f = (case r of Inl e \<Rightarrow> Inl e | Inr v \<Rightarrow> f v)"

text \<open>
  Field validation of a pydantic model, for inputs of the declared types: a missing key
  takes the field's default and a value of the field's type is accepted (an integer also
  where a float is expected; floats are reals here, so the integer is kept as it is).  A
  value of another type is a \<^verbatim>\<open>ValidationError\<close>; this is what pydantic does with a list
  or a dict in a scalar field and with a fractional number in an integer field, whereas the
  values that it converts instead (a numeric string, a whole float in an integer field, 0
  and 1 in a boolean field) are also rejected here.  The properties below give the
  constructors values of the declared types only.  Extra keys are ignored, as pydantic does
  by default.
\<close>

definition str_field :: "pydict \<Rightarrow> string \<Rightarrow> string \<Rightarrow> error + string" where
  "str_field d k dflt =
     (case map_of d k of None \<Rightarrow> Inr dflt | Some (JStr s) \<Rightarrow> Inr s | Some _ \<Rightarrow> Inl ValidationError)"

definition required_str_field :: "pydict \<Rightarrow> string \<Rightarrow> error + string" where
  "required_str_field d k =
     (case map_of d k of Some (JStr s) \<Rightarrow> Inr s | _ \<Rightarrow> Inl ValidationError)"

definition optional_str_field :: "pydict \<Rightarrow> string \<Rightarrow> error + string option" where
  "optional_str_field d k =
     (case map_of d k of None \<Rightarrow> Inr None | Some JNull \<Rightarrow> Inr None
      | Some (JStr s) \<Rightarrow> Inr (Some s) | Some _ \<Rightarrow> Inl ValidationError)"

definition float_field :: "pydict \<Rightarrow> string \<Rightarrow> real \<Rightarrow> error + real" where
  "float_field d k dflt =
     (case map_of d k of None \<Rightarrow> Inr dflt | Some (JFloat r) \<Rightarrow> Inr r
      | Some (JInt i) \<Rightarrow> Inr (of_int i) | Some _ \<Rightarrow> Inl ValidationError)"

definition int_field :: "pydict \<Rightarrow> string \<Rightarrow> int \<Rightarrow> error + int" where
  "int_field d k dflt =
     (case map_of d k of None \<Rightarrow> Inr dflt | Some (JInt i) \<Rightarrow> Inr i | Some _ \<Rightarrow> Inl ValidationError)"

definition bool_field :: "pydict \<Rightarrow> string \<Rightarrow> bool \<Rightarrow> error + bool" where
  "bool_field d k dflt =
     (case map_of d k of None \<Rightarrow> Inr dflt | Some (JBool b) \<Rightarrow> Inr b | Some _ \<Rightarrow> Inl ValidationError)"

fun str_items :: "json list \<Rightarrow> error + string list" where
  "str_items [] = Inr []"
| "str_items (JStr s # js) = bind (str_items js) (\<lambda>ss. Inr (s # ss))"
| "str_items (_ # js) = Inl ValidationError"

definition str_list_field :: "pydict \<Rightarrow> string \<Rightarrow> error + string list" where
  "str_list_field d k =
     (case map_of d k of None \<Rightarrow> Inr [] | Some (JList js) \<Rightarrow> str_items js
      | Some _ \<Rightarrow> Inl ValidationError)"

section \<open>Entity model (core/models.py)\<close>

text \<open>
  A \<^verbatim>\<open>datetime\<close> is identified with the ISO-8601 text that \<^verbatim>\<open>isoformat\<close> gives for it,
  so that \<^verbatim>\<open>isoformat\<close> and \<^verbatim>\<open>fromisoformat\<close> are inverse to each other by construction.
  This is what the code does on the texts that \<^verbatim>\<open>isoformat\<close> produces, which are the ones
  in snapshots and in files written by the program.  On another text \<^verbatim>\<open>fromisoformat\<close>
  raises (a malformed one) or yields a time whose \<^verbatim>\<open>isoformat\<close> is a different text (a date
  without a time); neither is modelled.
\<close>

type_synonym datetime = string

definition isoformat :: "datetime \<Rightarrow> string" where
  "isoformat t = t"

definition fromisoformat :: "string \<Rightarrow> datetime" where
  "fromisoformat s = s"

record node =
  n_id :: string
  n_label :: string
  n_type :: string
  n_shape :: string
  n_color :: string
  n_x :: real
  n_y :: real
  n_width :: real
  n_height :: real
  n_tags :: "string list"
  n_description :: string
  n_border_style :: string
  n_fill_opacity :: real
  n_z_index :: int
  n_rotation :: real

record edge =
  e_id :: string
  e_source :: string
  e_target :: string
  e_label :: string
  e_source_side :: "string option"
  e_target_side :: "string option"
  e_color :: string
  e_width :: real
  e_style :: string
  e_arrow_start :: string
  e_arrow_end :: string
  e_arrow_size :: real

record metadata =
  created_at :: datetime
  updated_at :: datetime
  grid_size :: int
  show_grid :: bool

record diagram =
  d_id :: string
  d_name :: string
  d_nodes :: "node list"
  d_edges :: "edge list"
  d_metadata :: metadata

text \<open>
  What the constructors draw from outside the program: the values of
  \<^verbatim>\<open>uuid.uuid4().hex[:8]\<close> (one per node, edge or diagram built without an id, by
  position) and of \<^verbatim>\<open>datetime.utcnow()\<close>.
\<close>

record entropy =
  node_hex :: "nat \<Rightarrow> string"
  edge_hex :: "nat \<Rightarrow> string"
  diagram_hex :: string
  utcnow_created :: datetime
  utcnow_updated :: datetime

definition generate_node_id :: "string \<Rightarrow> string" where
  "generate_node_id hex = CHR ''n'' # hex"

definition generate_edge_id :: "string \<Rightarrow> string" where
  "generate_edge_id hex = CHR ''e'' # hex"

text \<open>\<^verbatim>\<open>Node(**n)\<close>: every field has a default.\<close>

definition Node :: "string \<Rightarrow> pydict \<Rightarrow> error + node" where
  "Node hex d =
     bind (str_field d ''id'' (generate_node_id hex)) (\<lambda>v_id.
     bind (str_field d ''label'' ''New Node'') (\<lambda>v_label.
     bind (str_field d ''type'' ''component'') (\<lambda>v_type.
     bind (str_field d ''shape'' ''rectangle'') (\<lambda>v_shape.
     bind (str_field d ''color'' ''#3478f6'') (\<lambda>v_color.
     bind (float_field d ''x'' 100) (\<lambda>v_x.
     bind (float_field d ''y'' 100) (\<lambda>v_y.
     bind (float_field d ''width'' 150) (\<lambda>v_width.
     bind (float_field d ''height'' 80) (\<lambda>v_height.
     bind (str_list_field d ''tags'') (\<lambda>v_tags.
     bind (str_field d ''description'' '''') (\<lambda>v_description.
     bind (str_field d ''border_style'' ''solid'') (\<lambda>v_border_style.
     bind (float_field d ''fill_opacity'' 1) (\<lambda>v_fill_opacity.
     bind (int_field d ''z_index'' 0) (\<lambda>v_z_index.
     bind (float_field d ''rotation'' 0) (\<lambda>v_rotation.
     Inr \<lparr> n_id = v_id, n_label = v_label, n_type = v_type, n_shape = v_shape,
           n_color = v_color, n_x = v_x, n_y = v_y, n_width = v_width,
           n_height = v_height, n_tags = v_tags, n_description = v_description,
           n_border_style = v_border_style, n_fill_opacity = v_fill_opacity,
           n_z_index = v_z_index, n_rotation = v_rotation \<rparr>)))))))))))))))"

text \<open>\<^verbatim>\<open>Node.model_dump()\<close>: all fifteen fields, the tags in a fresh list.\<close>

definition model_dump :: "node \<Rightarrow> pydict" where
  "model_dump n =
     [(''id'', JStr (n_id n)), (''label'', JStr (n_label n)), (''type'', JStr (n_type n)),
      (''shape'', JStr (n_shape n)), (''color'', JStr (n_color n)),
      (''x'', JFloat (n_x n)), (''y'', JFloat (n_y n)),
      (''width'', JFloat (n_width n)), (''height'', JFloat (n_height n)),
      (''tags'', JList (map JStr (n_tags n))), (''description'', JStr (n_description n)),
      (''border_style'', JStr (n_border_style n)),
      (''fill_opacity'', JFloat (n_fill_opacity n)), (''z_index'', JInt (n_z_index n)),
      (''rotation'', JFloat (n_rotation n))]"

text \<open>
  \<^verbatim>\<open>Edge.convert_legacy_fields\<close>, the \<^verbatim>\<open>mode='before'\<close> validator: four tests in
  the source's order, each on the dict as the previous one left it.
\<close>

definition move_key :: "string \<Rightarrow> string \<Rightarrow> pydict \<Rightarrow> pydict" where
  "move_key legacy canonical data =
     (case map_of data legacy of
        None \<Rightarrow> data
      | Some v \<Rightarrow>
          (if map_of data canonical = None
           then AList.update canonical v (AList.delete legacy data)
           else data))"

definition convert_legacy_fields :: "pydict \<Rightarrow> pydict" where
  "convert_legacy_fields data =
     move_key ''to_node'' ''target''
       (move_key ''to'' ''target''
         (move_key ''from_node'' ''source''
           (move_key ''from'' ''source'' data)))"

text \<open>\<^verbatim>\<open>Edge(**e)\<close>: \<^verbatim>\<open>source\<close> and \<^verbatim>\<open>target\<close> are required.\<close>

definition Edge :: "string \<Rightarrow> pydict \<Rightarrow> error + edge" where
  "Edge hex e =
     (let d = convert_legacy_fields e in
      bind (str_field d ''id'' (generate_edge_id hex)) (\<lambda>v_id.
      bind (required_str_field d ''source'') (\<lambda>v_source.
      bind (required_str_field d ''target'') (\<lambda>v_target.
      bind (str_field d ''label'' '''') (\<lambda>v_label.
      bind (optional_str_field d ''source_side'') (\<lambda>v_source_side.
      bind (optional_str_field d ''target_side'') (\<lambda>v_target_side.
      bind (str_field d ''color'' ''#666666'') (\<lambda>v_color.
      bind (float_field d ''width'' 2) (\<lambda>v_width.
      bind (str_field d ''style'' ''solid'') (\<lambda>v_style.
      bind (str_field d ''arrow_start'' ''none'') (\<lambda>v_arrow_start.
      bind (str_field d ''arrow_end'' ''filled'') (\<lambda>v_arrow_end.
      bind (float_field d ''arrow_size'' 12) (\<lambda>v_arrow_size.
      Inr \<lparr> e_id = v_id, e_source = v_source, e_target = v_target, e_label = v_label,
            e_source_side = v_source_side, e_target_side = v_target_side,
            e_color = v_color, e_width = v_width, e_style = v_style,
            e_arrow_start = v_arrow_start, e_arrow_end = v_arrow_end,
            e_arrow_size = v_arrow_size \<rparr>)))))))))))))"

text \<open>
  \<^verbatim>\<open>Edge.to_json_dict\<close>: a side is written only when it is truthy, so neither
  \<^verbatim>\<open>None\<close> nor the empty string is.
\<close>

definition side_item :: "string \<Rightarrow> string option \<Rightarrow> pydict" where
  "side_item k side =
     (case side of None \<Rightarrow> [] | Some s \<Rightarrow> (if s = [] then [] else [(k, JStr s)]))"

definition edge_to_json_dict :: "edge \<Rightarrow> pydict" where
  "edge_to_json_dict e =
     [(''id'', JStr (e_id e)), (''source'', JStr (e_source e)),
      (''target'', JStr (e_target e)), (''label'', JStr (e_label e)),
      (''color'', JStr (e_color e)), (''width'', JFloat (e_width e)),
      (''style'', JStr (e_style e)), (''arrow_start'', JStr (e_arrow_start e)),
      (''arrow_end'', JStr (e_arrow_end e)), (''arrow_size'', JFloat (e_arrow_size e))]
     @ side_item ''source_side'' (e_source_side e)
     @ side_item ''target_side'' (e_target_side e)"

text \<open>\<^verbatim>\<open>Diagram.to_json_dict\<close>.\<close>

definition to_json_dict :: "diagram \<Rightarrow> pydict" where
  "to_json_dict dg =
     [(''id'', JStr (d_id dg)), (''name'', JStr (d_name dg)),
      (''nodes'', JList (map (\<lambda>n. JDict (model_dump n)) (d_nodes dg))),
      (''edges'', JList (map (\<lambda>e. JDict (edge_to_json_dict e)) (d_edges dg))),
      (''metadata'', JDict
         [(''created_at'', JStr (isoformat (created_at (d_metadata dg)))),
          (''updated_at'', JStr (isoformat (updated_at (d_metadata dg)))),
          (''grid_size'', JInt (grid_size (d_metadata dg))),
          (''show_grid'', JBool (show_grid (d_metadata dg)))])]"

text \<open>
  \<^verbatim>\<open>Diagram.from_json_dict\<close>.  The two comprehensions build the edges, then the nodes;
  the \<open>i\<close>-th element built without an id takes the \<open>i\<close>-th generated one.
\<close>

fun parse_edges :: "(nat \<Rightarrow> string) \<Rightarrow> nat \<Rightarrow> json list \<Rightarrow> error + edge list" where
  "parse_edges hex i [] = Inr []"
| "parse_edges hex i (JDict e # js) =
     bind (Edge (hex i) e) (\<lambda>x. bind (parse_edges hex (Suc i) js) (\<lambda>xs. Inr (x # xs)))"
| "parse_edges hex i (_ # js) = Inl TypeError"

fun parse_nodes :: "(nat \<Rightarrow> string) \<Rightarrow> nat \<Rightarrow> json list \<Rightarrow> error + node list" where
  "parse_nodes hex i [] = Inr []"
| "parse_nodes hex i (JDict n # js) =
     bind (Node (hex i) n) (\<lambda>x. bind (parse_nodes hex (Suc i) js) (\<lambda>xs. Inr (x # xs)))"
| "parse_nodes hex i (_ # js) = Inl TypeError"

text \<open>
  \<^verbatim>\<open>data.get(k, [])\<close> as the sequence a comprehension iterates over.  An empty dict and
  an empty string have no elements; the elements of a non-empty dict or string are strings,
  on which \<^verbatim>\<open>Node(**n)\<close> raises a \<^verbatim>\<open>TypeError\<close>, as iterating over \<^verbatim>\<open>None\<close>, a number or
  a boolean does.
\<close>

definition list_entry :: "pydict \<Rightarrow> string \<Rightarrow> error + json list" where
  "list_entry data k =
     (case map_of data k of
        None \<Rightarrow> Inr []
      | Some (JList js) \<Rightarrow> Inr js
      | Some (JDict kvs) \<Rightarrow> if kvs = [] then Inr [] else Inl TypeError
      | Some (JStr cs) \<Rightarrow> if cs = [] then Inr [] else Inl TypeError
      | Some _ \<Rightarrow> Inl TypeError)"

definition time_entry :: "pydict \<Rightarrow> string \<Rightarrow> datetime \<Rightarrow> error + datetime" where
  "time_entry meta_data k now =
     (case map_of meta_data k of None \<Rightarrow> Inr now | Some (JStr s) \<Rightarrow> Inr (fromisoformat s)
      | Some _ \<Rightarrow> Inl TypeError)"

definition from_json_dict :: "entropy \<Rightarrow> pydict \<Rightarrow> error + diagram" where
  "from_json_dict env data =
     bind (list_entry data ''edges'') (\<lambda>es.
     bind (parse_edges (edge_hex env) 0 es) (\<lambda>edges.
     bind (list_entry data ''nodes'') (\<lambda>ns.
     bind (parse_nodes (node_hex env) 0 ns) (\<lambda>nodes.
     bind (case map_of data ''metadata'' of None \<Rightarrow> Inr [] | Some (JDict md) \<Rightarrow> Inr md
           | Some _ \<Rightarrow> Inl TypeError) (\<lambda>meta_data.
     bind (time_entry meta_data ''created_at'' (utcnow_created env)) (\<lambda>v_created.
     bind (time_entry meta_data ''updated_at'' (utcnow_updated env)) (\<lambda>v_updated.
     bind (int_field meta_data ''grid_size'' 20) (\<lambda>v_grid.
     bind (bool_field meta_data ''show_grid'' False) (\<lambda>v_show.
     bind (str_field data ''id'' (''diagram-'' @ diagram_hex env)) (\<lambda>v_id.
     bind (str_field data ''name'' ''Untitled Diagram'') (\<lambda>v_name.
     Inr \<lparr> d_id = v_id, d_name = v_name, d_nodes = nodes, d_edges = edges,
           d_metadata = \<lparr> created_at = v_created, updated_at = v_updated,
                          grid_size = v_grid, show_grid = v_show \<rparr> \<rparr>)))))))))))"

section \<open>Validator (core/validation.py)\<close>

datatype IssueSeverity = ERROR | WARNING | INFO

record ValidationIssue =
  severity :: IssueSeverity
  message :: string
  issue_node_id :: "string option"
  issue_edge_id :: "string option"

fun join :: "string \<Rightarrow> string list \<Rightarrow> string" where
  "join sep [] = []"
| "join sep [x] = x"
| "join sep (x # y # ys) = x @ sep @ join sep (y # ys)"

text \<open>
  \<^verbatim>\<open>str.strip()\<close> removes leading and trailing whitespace; a character is a code point
  below 256, and those of them that \<^verbatim>\<open>str.isspace\<close> accepts are listed.
\<close>

definition isspace :: "char \<Rightarrow> bool" where
  "isspace c = (of_char c \<in> {9, 10, 11, 12, 13, 28, 29, 30, 31, 32, 133, 160 :: nat})"

definition strip :: "string \<Rightarrow> string" where
  "strip s = rev (dropWhile isspace (rev (dropWhile isspace s)))"

definition label_missing :: "string \<Rightarrow> bool" where
  "label_missing l = (l = [] \<or> strip l = [] \<or> l = ''New Node'')"

fun duplicate_edges :: "edge list \<Rightarrow> (string \<times> string) set \<Rightarrow> ValidationIssue list" where
  "duplicate_edges [] seen_pairs = []"
| "duplicate_edges (e # es) seen_pairs =
     (if (e_source e, e_target e) \<in> seen_pairs
      then \<lparr> severity = WARNING,
             message = ''Duplicate edge from '' @ e_source e @ '' to '' @ e_target e,
             issue_node_id = None, issue_edge_id = Some (e_id e) \<rparr>
           # duplicate_edges es seen_pairs
      else duplicate_edges es (insert (e_source e, e_target e) seen_pairs))"

definition missing_labels :: "node list \<Rightarrow> ValidationIssue list" where
  "missing_labels nodes =
     concat (map (\<lambda>n.
       if label_missing (n_label n)
       then [\<lparr> severity = WARNING, message = ''Node has default or empty label'',
               issue_node_id = Some (n_id n), issue_edge_id = None \<rparr>]
       else []) nodes)"

definition validate_diagram :: "diagram \<Rightarrow> ValidationIssue list" where
  "validate_diagram dg =
     (let nodes = d_nodes dg; edges = d_edges dg; node_ids = set (map n_id nodes) in
      if nodes = []
      then [\<lparr> severity = INFO, message = ''Diagram has no nodes'',
              issue_node_id = None, issue_edge_id = None \<rparr>]
      else
       (let connected_nodes = set (map e_source edges) \<union> set (map e_target edges);
            orphans = node_ids - connected_nodes;
            orphan_labels =
              map (\<lambda>n. n_label n @ '' ('' @ n_id n @ '')'')
                (filter (\<lambda>n. n_id n \<in> orphans) nodes)
        in (if orphans \<noteq> {}
            then [\<lparr> severity = WARNING,
                    message = ''Orphan nodes (no connections): '' @ join '', '' orphan_labels,
                    issue_node_id = None, issue_edge_id = None \<rparr>]
            else [])
         @ missing_labels nodes
         @ concat (map (\<lambda>e.
             (if e_source e \<notin> node_ids
              then [\<lparr> severity = ERROR,
                      message = ''Edge references non-existent source node: '' @ e_source e,
                      issue_node_id = None, issue_edge_id = Some (e_id e) \<rparr>]
              else [])
             @ (if e_target e \<notin> node_ids
              then [\<lparr> severity = ERROR,
                      message = ''Edge references non-existent target node: '' @ e_target e,
                      issue_node_id = None, issue_edge_id = Some (e_id e) \<rparr>]
              else [])) edges)
         @ concat (map (\<lambda>e.
             if e_source e = e_target e
             then [\<lparr> severity = WARNING,
                     message = ''Self-referencing edge (node points to itself)'',
                     issue_node_id = Some (e_source e), issue_edge_id = Some (e_id e) \<rparr>]
             else []) edges)
         @ duplicate_edges edges {}))"

section \<open>Graph analyzer: cycle detection (core/analysis.py)\<close>

text \<open>
  \<^verbatim>\<open>adjacency[v]\<close> of the \<^verbatim>\<open>defaultdict(list)\<close> filled from the edge list: the targets
  of the edges leaving \<open>v\<close>, in edge order.
\<close>

definition adjacency :: "edge list \<Rightarrow> string \<Rightarrow> string list" where
  "adjacency edges v = map e_target (filter (\<lambda>e. e_source e = v) edges)"

text \<open>
  The inner \<^verbatim>\<open>dfs\<close>.  The source appends to \<^verbatim>\<open>path\<close> and \<^verbatim>\<open>visited\<close> before the
  recursive call and removes the same element after it, so the loop goes on with the
  values it had; \<^verbatim>\<open>cycles\<close> is the list the calls append to.
\<close>

function dfs :: "edge list \<Rightarrow> string \<Rightarrow> string \<Rightarrow> string list \<Rightarrow> string set
    \<Rightarrow> string list list \<Rightarrow> string list list" where
  "dfs edges start current path visited cycles =
     fold (\<lambda>neighbor cyc.
        if neighbor = start \<and> length path > 1 then cyc @ [path @ [start]]
        else if neighbor \<notin> visited
          then dfs edges start neighbor (path @ [neighbor]) (insert neighbor visited) cyc
          else cyc)
      (adjacency edges current) cycles"
  by pat_completeness auto
termination
proof (relation "measure (\<lambda>(edges, start, current, path, visited, cycles).
                   card (set (map e_target edges) - visited))")
  show "wf (measure (\<lambda>(edges, start, current, path, visited, cycles).
                   card (set (map e_target edges) - visited)))"
    by simp
next
  fix edges :: "edge list" and start current :: string and path :: "string list"
    and visited :: "string set" and cycles :: "string list list"
    and neighbor :: string and cyc :: "string list list"
  assume mem: "neighbor \<in> set (adjacency edges current)"
    and fresh: "neighbor \<notin> visited"
  have "neighbor \<in> set (map e_target edges) - visited"
    using mem fresh by (auto simp: adjacency_def)
  then have "card (set (map e_target edges) - insert neighbor visited)
      < card (set (map e_target edges) - visited)"
    by (metis Diff_insert card_Diff1_less finite_Diff finite_set)
  then show "((edges, start, neighbor, path @ [neighbor], insert neighbor visited, cyc),
              (edges, start, current, path, visited, cycles))
      \<in> measure (\<lambda>(edges, start, current, path, visited, cycles).
                   card (set (map e_target edges) - visited))"
    by simp
qed

declare dfs.simps [simp del]

definition visit_node :: "edge list \<Rightarrow> node \<Rightarrow> string set \<times> string list list
    \<Rightarrow> string set \<times> string list list" where
  "visit_node edges node st =
     (case st of (visited_global, cycles) \<Rightarrow>
        if n_id node \<notin> visited_global
        then (insert (n_id node) visited_global,
              dfs edges (n_id node) (n_id node) [n_id node] {n_id node} cycles)
        else (visited_global, cycles))"

definition keep_unique :: "string list \<Rightarrow> string set set \<times> string list list
    \<Rightarrow> string set set \<times> string list list" where
  "keep_unique cycle st =
     (case st of (seen, unique_cycles) \<Rightarrow>
        (let cycle_set = set (butlast cycle) in
         if cycle_set \<notin> seen then (insert cycle_set seen, unique_cycles @ [cycle])
         else (seen, unique_cycles)))"

text \<open>
  The two phases of \<^verbatim>\<open>find_cycles\<close>: the loop over the nodes that fills \<^verbatim>\<open>cycles\<close>,
  and the loop that keeps the first cycle of every node set.
\<close>

definition raw_cycles :: "diagram \<Rightarrow> string list list" where
  "raw_cycles dg = snd (fold (visit_node (d_edges dg)) (d_nodes dg) ({}, []))"

definition unique_cycles :: "string list list \<Rightarrow> string list list" where
  "unique_cycles cycles = snd (fold keep_unique cycles ({}, []))"

definition find_cycles :: "diagram \<Rightarrow> string list list" where
  "find_cycles dg = unique_cycles (raw_cycles dg)"

section \<open>Layout engine: align and distribute (core/layout.py)\<close>

text \<open>
  Both functions mutate the selected node objects in place and return a flag; here they
  return the flag and the node list after the call.  A node object is its position in
  the list.
\<close>

definition core_align_nodes :: "node list \<Rightarrow> string list \<Rightarrow> string \<Rightarrow> bool \<times> node list" where
  "core_align_nodes nodes node_ids alignment =
     (let selected = (\<lambda>n. n_id n \<in> set node_ids); targets = filter selected nodes in
      if length targets < 2 then (False, nodes)
      else if alignment = ''left'' then
        (let min_x = Min (set (map n_x targets))
         in (True, map (\<lambda>n. if selected n then n\<lparr>n_x := min_x\<rparr> else n) nodes))
      else if alignment = ''right'' then
        (let max_x = Max (set (map (\<lambda>n. n_x n + n_width n) targets))
         in (True, map (\<lambda>n. if selected n then n\<lparr>n_x := max_x - n_width n\<rparr> else n) nodes))
      else if alignment = ''top'' then
        (let min_y = Min (set (map n_y targets))
         in (True, map (\<lambda>n. if selected n then n\<lparr>n_y := min_y\<rparr> else n) nodes))
      else if alignment = ''bottom'' then
        (let max_y = Max (set (map (\<lambda>n. n_y n + n_height n) targets))
         in (True, map (\<lambda>n. if selected n then n\<lparr>n_y := max_y - n_height n\<rparr> else n) nodes))
      else if alignment = ''center_h'' then
        (let center_x = sum_list (map (\<lambda>n. n_x n + n_width n / 2) targets)
                          / real (length targets)
         in (True, map (\<lambda>n. if selected n then n\<lparr>n_x := center_x - n_width n / 2\<rparr> else n)
                     nodes))
      else if alignment = ''center_v'' then
        (let center_y = sum_list (map (\<lambda>n. n_y n + n_height n / 2) targets)
                          / real (length targets)
         in (True, map (\<lambda>n. if selected n then n\<lparr>n_y := center_y - n_height n / 2\<rparr> else n)
                     nodes))
      else (False, nodes))"

definition place_x :: "real \<Rightarrow> real \<Rightarrow> nat \<times> nat \<Rightarrow> node list \<Rightarrow> node list" where
  "place_x min_x spacing ki ns =
     (case ki of (k, i) \<Rightarrow> ns[i := (ns ! i)\<lparr>n_x := min_x + real k * spacing\<rparr>])"

definition place_y :: "real \<Rightarrow> real \<Rightarrow> nat \<times> nat \<Rightarrow> node list \<Rightarrow> node list" where
  "place_y min_y spacing ki ns =
     (case ki of (k, i) \<Rightarrow> ns[i := (ns ! i)\<lparr>n_y := min_y + real k * spacing\<rparr>])"

definition core_distribute_nodes :: "node list \<Rightarrow> string list \<Rightarrow> string \<Rightarrow> bool \<times> node list" where
  "core_distribute_nodes nodes node_ids axis =
     (let targets = filter (\<lambda>i. n_id (nodes ! i) \<in> set node_ids) [0..<length nodes] in
      if length targets < 3 then (False, nodes)
      else if axis = ''horizontal'' then
        (let sorted = sort_key (\<lambda>i. n_x (nodes ! i)) targets;
             min_x = n_x (nodes ! hd sorted);
             max_x = n_x (nodes ! last sorted);
             spacing = (max_x - min_x) / real (length sorted - 1)
         in (True, fold (place_x min_x spacing) (zip [0..<length sorted] sorted) nodes))
      else if axis = ''vertical'' then
        (let sorted = sort_key (\<lambda>i. n_y (nodes ! i)) targets;
             min_y = n_y (nodes ! hd sorted);
             max_y = n_y (nodes ! last sorted);
             spacing = (max_y - min_y) / real (length sorted - 1)
         in (True, fold (place_y min_y spacing) (zip [0..<length sorted] sorted) nodes))
      else (False, nodes))"

section \<open>Graph store and history engine (backend/diagram_manager.py)\<close>

text \<open>
  The manager holds the same \<^verbatim>\<open>Node\<close> object in \<^verbatim>\<open>_diagram.nodes\<close> and in
  \<^verbatim>\<open>_node_index\<close>, and mutates it through either.  Objects therefore live in a store
  (one for nodes, one for edges) and the containers hold references; a new object takes
  the next free reference.
\<close>

type_synonym ref = nat

record diagram_obj =
  o_id :: string
  o_name :: string
  o_nodes :: "ref list"
  o_edges :: "ref list"
  o_metadata :: metadata

text \<open>
  A Python \<^verbatim>\<open>set\<close> of strings is a list without repetition; the loops over such a set
  run in list order.
\<close>

definition set_add :: "string \<Rightarrow> string list \<Rightarrow> string list" where
  "set_add x s = (if x \<in> set s then s else s @ [x])"

definition set_discard :: "string \<Rightarrow> string list \<Rightarrow> string list" where
  "set_discard x s = removeAll x s"

record manager =
  node_heap :: "ref \<Rightarrow> node"
  edge_heap :: "ref \<Rightarrow> edge"
  next_ref :: ref
  m_diagram :: "diagram_obj option"
  history :: "pydict list"
  future :: "pydict list"
  max_history :: int
  dirty :: bool
  node_index :: "string \<rightharpoonup> ref"
  edge_index :: "string \<rightharpoonup> ref"
  tag_index :: "string \<rightharpoonup> string list"
  type_index :: "string \<rightharpoonup> string list"
  edges_by_node :: "string \<rightharpoonup> string list"

text \<open>The diagram as a value: every reference replaced by the object it points to.\<close>

definition deref :: "manager \<Rightarrow> diagram_obj \<Rightarrow> diagram" where
  "deref m d =
     \<lparr> d_id = o_id d, d_name = o_name d, d_nodes = map (node_heap m) (o_nodes d),
       d_edges = map (edge_heap m) (o_edges d), d_metadata = o_metadata d \<rparr>"

definition current :: "manager \<Rightarrow> diagram option" where
  "current m = map_option (deref m) (m_diagram m)"

text \<open>
  \<^verbatim>\<open>if k not in index: index[k] = set()\<close> followed by \<^verbatim>\<open>index[k].add(v)\<close>, and
  \<^verbatim>\<open>if k in index: index[k].discard(v)\<close>.
\<close>

definition index_add :: "string \<Rightarrow> string \<Rightarrow> (string \<rightharpoonup> string list) \<Rightarrow> (string \<rightharpoonup> string list)" where
  "index_add k v idx = idx(k \<mapsto> set_add v (case idx k of None \<Rightarrow> [] | Some s \<Rightarrow> s))"

definition index_discard :: "string \<Rightarrow> string \<Rightarrow> (string \<rightharpoonup> string list) \<Rightarrow> (string \<rightharpoonup> string list)" where
  "index_discard k v idx = (case idx k of None \<Rightarrow> idx | Some s \<Rightarrow> idx(k \<mapsto> set_discard v s))"

definition index_node :: "ref \<Rightarrow> manager \<Rightarrow> manager" where
  "index_node r m =
     (let node = node_heap m r in
      m\<lparr> node_index := (node_index m)(n_id node \<mapsto> r),
         tag_index := fold (\<lambda>tag. index_add tag (n_id node)) (n_tags node) (tag_index m),
         type_index := index_add (n_type node) (n_id node) (type_index m) \<rparr>)"

definition unindex_node :: "ref \<Rightarrow> manager \<Rightarrow> manager" where
  "unindex_node r m =
     (let node = node_heap m r in
      m\<lparr> node_index := (node_index m)(n_id node := None),
         tag_index := fold (\<lambda>tag. index_discard tag (n_id node)) (n_tags node) (tag_index m),
         type_index := index_discard (n_type node) (n_id node) (type_index m) \<rparr>)"

definition index_edge :: "ref \<Rightarrow> manager \<Rightarrow> manager" where
  "index_edge r m =
     (let edge = edge_heap m r in
      m\<lparr> edge_index := (edge_index m)(e_id edge \<mapsto> r),
         edges_by_node :=
           index_add (e_target edge) (e_id edge)
             (index_add (e_source edge) (e_id edge) (edges_by_node m)) \<rparr>)"

definition unindex_edge :: "ref \<Rightarrow> manager \<Rightarrow> manager" where
  "unindex_edge r m =
     (let edge = edge_heap m r in
      m\<lparr> edge_index := (edge_index m)(e_id edge := None),
         edges_by_node :=
           index_discard (e_target edge) (e_id edge)
             (index_discard (e_source edge) (e_id edge) (edges_by_node m)) \<rparr>)"

text \<open>
  \<^verbatim>\<open>_rebuild_indexes\<close>: its two loops have the bodies of \<^verbatim>\<open>_index_node\<close> and
  \<^verbatim>\<open>_index_edge\<close>.
\<close>

definition rebuild_indexes :: "manager \<Rightarrow> manager" where
  "rebuild_indexes m =
     (let cleared = m\<lparr> node_index := Map.empty, edge_index := Map.empty,
                       tag_index := Map.empty, type_index := Map.empty,
                       edges_by_node := Map.empty \<rparr>
      in case m_diagram m of
           None \<Rightarrow> cleared
         | Some d \<Rightarrow> fold index_edge (o_edges d) (fold index_node (o_nodes d) cleared))"

definition trim :: "int \<Rightarrow> pydict list \<Rightarrow> pydict list" where
  "trim bound h = (if int (length h) > bound then tl h else h)"

definition save_to_history :: "manager \<Rightarrow> manager" where
  "save_to_history m =
     (case m_diagram m of
        None \<Rightarrow> m
      | Some d \<Rightarrow>
          m\<lparr> future := [],
             history := trim (max_history m) (history m @ [to_json_dict (deref m d)]) \<rparr>)"

text \<open>
  \<^verbatim>\<open>self._diagram = d\<close> for a diagram \<open>d\<close> that was just built (by \<^verbatim>\<open>from_json_dict\<close> or
  by the \<^verbatim>\<open>Diagram\<close> constructor): its nodes and edges are new objects.
\<close>

definition alloc_all :: "'a list \<Rightarrow> ref \<Rightarrow> (ref \<Rightarrow> 'a) \<Rightarrow> (ref \<Rightarrow> 'a)" where
  "alloc_all xs base h = (\<lambda>r. if base \<le> r \<and> r < base + length xs then xs ! (r - base) else h r)"

definition install :: "diagram \<Rightarrow> manager \<Rightarrow> manager" where
  "install dg m =
     (let nb = next_ref m; eb = nb + length (d_nodes dg); top = eb + length (d_edges dg) in
      m\<lparr> node_heap := alloc_all (d_nodes dg) nb (node_heap m),
         edge_heap := alloc_all (d_edges dg) eb (edge_heap m),
         next_ref := top,
         m_diagram := Some \<lparr> o_id = d_id dg, o_name = d_name dg, o_nodes = [nb..<eb],
                             o_edges = [eb..<top], o_metadata = d_metadata dg \<rparr> \<rparr>)"

text \<open>\<^verbatim>\<open>DiagramManager(max_history)\<close> and \<^verbatim>\<open>new_diagram(name)\<close>.\<close>

definition blank_node :: node where
  "blank_node =
     \<lparr> n_id = [], n_label = [], n_type = [], n_shape = [], n_color = [], n_x = 0, n_y = 0,
       n_width = 0, n_height = 0, n_tags = [], n_description = [], n_border_style = [],
       n_fill_opacity = 0, n_z_index = 0, n_rotation = 0 \<rparr>"

definition blank_edge :: edge where
  "blank_edge =
     \<lparr> e_id = [], e_source = [], e_target = [], e_label = [], e_source_side = None,
       e_target_side = None, e_color = [], e_width = 0, e_style = [], e_arrow_start = [],
       e_arrow_end = [], e_arrow_size = 0 \<rparr>"

definition DiagramManager :: "int \<Rightarrow> manager" where
  "DiagramManager bound =
     \<lparr> node_heap = (\<lambda>r. blank_node), edge_heap = (\<lambda>r. blank_edge), next_ref = 0,
       m_diagram = None, history = [], future = [], max_history = bound, dirty = False,
       node_index = Map.empty, edge_index = Map.empty, tag_index = Map.empty,
       type_index = Map.empty, edges_by_node = Map.empty \<rparr>"

definition new_diagram :: "entropy \<Rightarrow> string \<Rightarrow> manager \<Rightarrow> manager" where
  "new_diagram env name m =
     rebuild_indexes
       ((install \<lparr> d_id = ''diagram-'' @ diagram_hex env, d_name = name, d_nodes = [],
                   d_edges = [],
                   d_metadata = \<lparr> created_at = utcnow_created env,
                                  updated_at = utcnow_updated env,
                                  grid_size = 20, show_grid = True \<rparr> \<rparr> m)
        \<lparr> history := [], future := [], dirty := False \<rparr>)"

text \<open>
  \<^verbatim>\<open>undo\<close> and \<^verbatim>\<open>redo\<close>.  The result is what the method returns (the restored diagram,
  or \<^verbatim>\<open>None\<close>), or the exception \<^verbatim>\<open>from_json_dict\<close> raised.
\<close>

definition undo :: "entropy \<Rightarrow> manager \<Rightarrow> (error + diagram option) \<times> manager" where
  "undo env m =
     (case m_diagram m of
        None \<Rightarrow> (Inr None, m)
      | Some d \<Rightarrow>
          if history m = [] then (Inr None, m)
          else
            (let m1 = m\<lparr> future := future m @ [to_json_dict (deref m d)] \<rparr>;
                 snapshot = last (history m1);
                 m2 = m1\<lparr> history := butlast (history m1) \<rparr>
             in case from_json_dict env snapshot of
                  Inl err \<Rightarrow> (Inl err, m2)
                | Inr dg \<Rightarrow> (Inr (Some dg), rebuild_indexes ((install dg m2)\<lparr> dirty := True \<rparr>))))"

definition redo :: "entropy \<Rightarrow> manager \<Rightarrow> (error + diagram option) \<times> manager" where
  "redo env m =
     (case m_diagram m of
        None \<Rightarrow> (Inr None, m)
      | Some d \<Rightarrow>
          if future m = [] then (Inr None, m)
          else
            (let m1 = m\<lparr> history := history m @ [to_json_dict (deref m d)] \<rparr>;
                 snapshot = last (future m1);
                 m2 = m1\<lparr> future := butlast (future m1) \<rparr>
             in case from_json_dict env snapshot of
                  Inl err \<Rightarrow> (Inl err, m2)
                | Inr dg \<Rightarrow> (Inr (Some dg), rebuild_indexes ((install dg m2)\<lparr> dirty := True \<rparr>))))"

text \<open>Changes to the lists of the current \<^verbatim>\<open>Diagram\<close> object.\<close>

definition on_diagram :: "(diagram_obj \<Rightarrow> diagram_obj) \<Rightarrow> manager \<Rightarrow> manager" where
  "on_diagram f m = m\<lparr> m_diagram := map_option f (m_diagram m) \<rparr>"

text \<open>
  \<^verbatim>\<open>add_node(**kwargs)\<close>.  The keyword arguments go to the \<^verbatim>\<open>Node\<close> constructor as they
  are; it runs after the snapshot was taken.
\<close>

definition add_node :: "string \<Rightarrow> pydict \<Rightarrow> manager \<Rightarrow> (error + node) \<times> manager" where
  "add_node hex kwargs m =
     (case m_diagram m of
        None \<Rightarrow> (Inl NoDiagramOpen, m)
      | Some d \<Rightarrow>
          (let m1 = save_to_history m in
           case Node hex kwargs of
             Inl err \<Rightarrow> (Inl err, m1)
           | Inr node \<Rightarrow>
               (let r = next_ref m1;
                    m2 = m1\<lparr> node_heap := (node_heap m1)(r := node), next_ref := Suc r \<rparr>;
                    m3 = on_diagram (\<lambda>d. d\<lparr> o_nodes := o_nodes d @ [r] \<rparr>) m2
                in (Inr node, (index_node r m3)\<lparr> dirty := True \<rparr>))))"

text \<open>
  The keyword arguments of \<^verbatim>\<open>update_node\<close>: one slot per attribute of \<^verbatim>\<open>Node\<close>, of the
  attribute's declared type.  A slot that is \<^verbatim>\<open>None\<close> (or not passed) is skipped by the
  loop.  The loop stores a value with \<^verbatim>\<open>setattr\<close> and validates nothing, so Python also
  accepts a value of another type (\<^verbatim>\<open>z_index=1.5\<close>, an \<^verbatim>\<open>int\<close> for \<^verbatim>\<open>x\<close>); a record of
  this type cannot hold such a call.  This embedding covers the calls whose values have the
  declared types, which are the calls that the REST layer makes (its request models are
  typed), and every property that depends on it says so.
\<close>

record node_update =
  u_id :: "string option"
  u_label :: "string option"
  u_type :: "string option"
  u_shape :: "string option"
  u_color :: "string option"
  u_x :: "real option"
  u_y :: "real option"
  u_width :: "real option"
  u_height :: "real option"
  u_tags :: "string list option"
  u_description :: "string option"
  u_border_style :: "string option"
  u_fill_opacity :: "real option"
  u_z_index :: "int option"
  u_rotation :: "real option"

definition setattr :: "'v option \<Rightarrow> ('v \<Rightarrow> 'o \<Rightarrow> 'o) \<Rightarrow> 'o \<Rightarrow> 'o" where
  "setattr v upd obj = (case v of None \<Rightarrow> obj | Some x \<Rightarrow> upd x obj)"

definition apply_node_update :: "node_update \<Rightarrow> node \<Rightarrow> node" where
  "apply_node_update kw =
     setattr (u_rotation kw) (\<lambda>v n. n\<lparr>n_rotation := v\<rparr>) \<circ>
     setattr (u_z_index kw) (\<lambda>v n. n\<lparr>n_z_index := v\<rparr>) \<circ>
     setattr (u_fill_opacity kw) (\<lambda>v n. n\<lparr>n_fill_opacity := v\<rparr>) \<circ>
     setattr (u_border_style kw) (\<lambda>v n. n\<lparr>n_border_style := v\<rparr>) \<circ>
     setattr (u_description kw) (\<lambda>v n. n\<lparr>n_description := v\<rparr>) \<circ>
     setattr (u_tags kw) (\<lambda>v n. n\<lparr>n_tags := v\<rparr>) \<circ>
     setattr (u_height kw) (\<lambda>v n. n\<lparr>n_height := v\<rparr>) \<circ>
     setattr (u_width kw) (\<lambda>v n. n\<lparr>n_width := v\<rparr>) \<circ>
     setattr (u_y kw) (\<lambda>v n. n\<lparr>n_y := v\<rparr>) \<circ>
     setattr (u_x kw) (\<lambda>v n. n\<lparr>n_x := v\<rparr>) \<circ>
     setattr (u_color kw) (\<lambda>v n. n\<lparr>n_color := v\<rparr>) \<circ>
     setattr (u_shape kw) (\<lambda>v n. n\<lparr>n_shape := v\<rparr>) \<circ>
     setattr (u_type kw) (\<lambda>v n. n\<lparr>n_type := v\<rparr>) \<circ>
     setattr (u_label kw) (\<lambda>v n. n\<lparr>n_label := v\<rparr>) \<circ>
     setattr (u_id kw) (\<lambda>v n. n\<lparr>n_id := v\<rparr>)"

text \<open>
  \<^verbatim>\<open>update_node\<close>.  \<^verbatim>\<open>old_tags - new_tags\<close> and \<^verbatim>\<open>new_tags - old_tags\<close> are set
  differences; the index entries are keyed by the \<^verbatim>\<open>node_id\<close> argument.
\<close>

definition update_node :: "string \<Rightarrow> node_update \<Rightarrow> manager \<Rightarrow> (error + node option) \<times> manager" where
  "update_node node_id kwargs m =
     (case m_diagram m of
        None \<Rightarrow> (Inl NoDiagramOpen, m)
      | Some d \<Rightarrow>
          (case node_index m node_id of
             None \<Rightarrow> (Inr None, m)
           | Some r \<Rightarrow>
               (let m1 = save_to_history m;
                    old = node_heap m1 r;
                    old_tags = remdups (n_tags old);
                    old_type = n_type old;
                    node = apply_node_update kwargs old;
                    new_tags = remdups (n_tags node);
                    m2 = m1\<lparr> node_heap := (node_heap m1)(r := node) \<rparr>;
                    m3 = (if set old_tags \<noteq> set new_tags
                          then m2\<lparr> tag_index :=
                                 fold (\<lambda>tag. index_add tag node_id)
                                   (filter (\<lambda>t. t \<notin> set old_tags) new_tags)
                                   (fold (\<lambda>tag. index_discard tag node_id)
                                      (filter (\<lambda>t. t \<notin> set new_tags) old_tags)
                                      (tag_index m2)) \<rparr>
                          else m2);
                    m4 = (if old_type \<noteq> n_type node
                          then m3\<lparr> type_index :=
                                 index_add (n_type node) node_id
                                   (index_discard old_type node_id (type_index m3)) \<rparr>
                          else m3)
                in (Inr (Some node), m4\<lparr> dirty := True \<rparr>))))"

text \<open>\<^verbatim>\<open>delete_node\<close>, with the body of its loop over the connected edge ids.\<close>

definition drop_edge :: "string \<Rightarrow> manager \<Rightarrow> manager" where
  "drop_edge edge_id m =
     (case edge_index m edge_id of
        None \<Rightarrow> m
      | Some r \<Rightarrow>
          unindex_edge r
            (on_diagram
               (\<lambda>d. d\<lparr> o_edges := filter (\<lambda>e. e_id (edge_heap m e) \<noteq> edge_id) (o_edges d) \<rparr>)
               m))"

definition delete_node :: "string \<Rightarrow> manager \<Rightarrow> (error + bool) \<times> manager" where
  "delete_node node_id m =
     (case m_diagram m of
        None \<Rightarrow> (Inl NoDiagramOpen, m)
      | Some d \<Rightarrow>
          (case node_index m node_id of
             None \<Rightarrow> (Inr False, m)
           | Some r \<Rightarrow>
               (let m1 = save_to_history m;
                    m2 = on_diagram
                           (\<lambda>d. d\<lparr> o_nodes :=
                                  filter (\<lambda>n. n_id (node_heap m1 n) \<noteq> node_id) (o_nodes d) \<rparr>)
                           m1;
                    m3 = unindex_node r m2;
                    connected_edge_ids =
                      (case edges_by_node m3 node_id of None \<Rightarrow> [] | Some s \<Rightarrow> s);
                    m4 = fold drop_edge connected_edge_ids m3
                in (Inr True, m4\<lparr> dirty := True \<rparr>))))"

text \<open>
  \<^verbatim>\<open>add_edge\<close>.  \<^verbatim>\<open>source or from_node\<close> takes the second operand when the first is
  \<^verbatim>\<open>None\<close> or empty.
\<close>

definition truthy :: "string option \<Rightarrow> bool" where
  "truthy a = (case a of None \<Rightarrow> False | Some s \<Rightarrow> s \<noteq> [])"

definition py_or :: "string option \<Rightarrow> string option \<Rightarrow> string option" where
  "py_or a b = (if truthy a then a else b)"

definition side_arg :: "string \<Rightarrow> string option \<Rightarrow> string \<times> json" where
  "side_arg k side = (k, case side of None \<Rightarrow> JNull | Some s \<Rightarrow> JStr s)"

definition add_edge :: "string \<Rightarrow> string option \<Rightarrow> string option \<Rightarrow> string option
    \<Rightarrow> string option \<Rightarrow> string \<Rightarrow> string option \<Rightarrow> string option \<Rightarrow> manager
    \<Rightarrow> (error + edge) \<times> manager" where
  "add_edge hex source target from_node to_node label source_side target_side m =
     (case m_diagram m of
        None \<Rightarrow> (Inl NoDiagramOpen, m)
      | Some d \<Rightarrow>
          (case (py_or source from_node, py_or target to_node) of
             (Some actual_source, Some actual_target) \<Rightarrow>
               if actual_source = [] \<or> actual_target = []
               then (Inl (ValueError ''Both source and target nodes must be specified''), m)
               else if node_index m actual_source = None
               then (Inl (ValueError (''Source node not found: '' @ actual_source)), m)
               else if node_index m actual_target = None
               then (Inl (ValueError (''Target node not found: '' @ actual_target)), m)
               else
                 (let m1 = save_to_history m in
                  case Edge hex [(''source'', JStr actual_source),
                                 (''target'', JStr actual_target),
                                 (''label'', JStr label),
                                 side_arg ''source_side'' source_side,
                                 side_arg ''target_side'' target_side] of
                    Inl err \<Rightarrow> (Inl err, m1)
                  | Inr edge \<Rightarrow>
                      (let r = next_ref m1;
                           m2 = m1\<lparr> edge_heap := (edge_heap m1)(r := edge), next_ref := Suc r \<rparr>;
                           m3 = on_diagram (\<lambda>d. d\<lparr> o_edges := o_edges d @ [r] \<rparr>) m2
                       in (Inr edge, (index_edge r m3)\<lparr> dirty := True \<rparr>)))
           | _ \<Rightarrow> (Inl (ValueError ''Both source and target nodes must be specified''), m)))"

text \<open>
  The keyword arguments of \<^verbatim>\<open>update_edge\<close>, one slot per attribute of \<^verbatim>\<open>Edge\<close>, and the
  method.  As for \<^verbatim>\<open>update_node\<close>, the slots have the declared types, while Python
  stores any value that is not \<^verbatim>\<open>None\<close> (\<^verbatim>\<open>width='abc'\<close>); such calls are outside this
  embedding.  No index is touched, also when the source or the target is set.
\<close>

record edge_update =
  v_id :: "string option"
  v_source :: "string option"
  v_target :: "string option"
  v_label :: "string option"
  v_source_side :: "string option"
  v_target_side :: "string option"
  v_color :: "string option"
  v_width :: "real option"
  v_style :: "string option"
  v_arrow_start :: "string option"
  v_arrow_end :: "string option"
  v_arrow_size :: "real option"

definition apply_edge_update :: "edge_update \<Rightarrow> edge \<Rightarrow> edge" where
  "apply_edge_update kw =
     setattr (v_arrow_size kw) (\<lambda>v e. e\<lparr>e_arrow_size := v\<rparr>) \<circ>
     setattr (v_arrow_end kw) (\<lambda>v e. e\<lparr>e_arrow_end := v\<rparr>) \<circ>
     setattr (v_arrow_start kw) (\<lambda>v e. e\<lparr>e_arrow_start := v\<rparr>) \<circ>
     setattr (v_style kw) (\<lambda>v e. e\<lparr>e_style := v\<rparr>) \<circ>
     setattr (v_width kw) (\<lambda>v e. e\<lparr>e_width := v\<rparr>) \<circ>
     setattr (v_color kw) (\<lambda>v e. e\<lparr>e_color := v\<rparr>) \<circ>
     setattr (v_target_side kw) (\<lambda>v e. e\<lparr>e_target_side := Some v\<rparr>) \<circ>
     setattr (v_source_side kw) (\<lambda>v e. e\<lparr>e_source_side := Some v\<rparr>) \<circ>
     setattr (v_label kw) (\<lambda>v e. e\<lparr>e_label := v\<rparr>) \<circ>
     setattr (v_target kw) (\<lambda>v e. e\<lparr>e_target := v\<rparr>) \<circ>
     setattr (v_source kw) (\<lambda>v e. e\<lparr>e_source := v\<rparr>) \<circ>
     setattr (v_id kw) (\<lambda>v e. e\<lparr>e_id := v\<rparr>)"

definition update_edge :: "string \<Rightarrow> edge_update \<Rightarrow> manager \<Rightarrow> (error + edge option) \<times> manager" where
  "update_edge edge_id kwargs m =
     (case m_diagram m of
        None \<Rightarrow> (Inl NoDiagramOpen, m)
      | Some d \<Rightarrow>
          (case edge_index m edge_id of
             None \<Rightarrow> (Inr None, m)
           | Some r \<Rightarrow>
               (let m1 = save_to_history m;
                    edge = apply_edge_update kwargs (edge_heap m1 r);
                    m2 = m1\<lparr> edge_heap := (edge_heap m1)(r := edge) \<rparr>
                in (Inr (Some edge), m2\<lparr> dirty := True \<rparr>))))"

definition delete_edge :: "string \<Rightarrow> manager \<Rightarrow> (error + bool) \<times> manager" where
  "delete_edge edge_id m =
     (case m_diagram m of
        None \<Rightarrow> (Inl NoDiagramOpen, m)
      | Some d \<Rightarrow>
          (case edge_index m edge_id of
             None \<Rightarrow> (Inr False, m)
           | Some r \<Rightarrow>
               (let m1 = save_to_history m;
                    m2 = on_diagram
                           (\<lambda>d. d\<lparr> o_edges :=
                                  filter (\<lambda>e. e_id (edge_heap m1 e) \<noteq> edge_id) (o_edges d) \<rparr>)
                           m1
                in (Inr True, (unindex_edge r m2)\<lparr> dirty := True \<rparr>))))"

text \<open>
  \<^verbatim>\<open>update_diagram_info\<close>, with the parameter types of its signature
  (\<^verbatim>\<open>Optional[str]\<close>, \<^verbatim>\<open>Optional[int]\<close>, \<^verbatim>\<open>Optional[bool]\<close>).  Python does not enforce
  them and the assignments validate nothing; a call with a value of another type
  (\<^verbatim>\<open>grid_size=1.5\<close>) is outside this embedding.
\<close>

definition update_diagram_info :: "string option \<Rightarrow> int option \<Rightarrow> bool option \<Rightarrow> manager
    \<Rightarrow> (error + diagram) \<times> manager" where
  "update_diagram_info name v_grid v_show m =
     (case m_diagram m of
        None \<Rightarrow> (Inl NoDiagramOpen, m)
      | Some d \<Rightarrow>
          (let m1 = save_to_history m;
               d1 = setattr name (\<lambda>v d. d\<lparr> o_name := v \<rparr>) d;
               d2 = setattr v_grid
                      (\<lambda>v d. d\<lparr> o_metadata := (o_metadata d)\<lparr> grid_size := v \<rparr> \<rparr>) d1;
               d3 = setattr v_show
                      (\<lambda>v d. d\<lparr> o_metadata := (o_metadata d)\<lparr> show_grid := v \<rparr> \<rparr>) d2;
               m2 = m1\<lparr> m_diagram := Some d3, dirty := True \<rparr>
           in (Inr (deref m2 d3), m2)))"

text \<open>
  \<^verbatim>\<open>bulk_update_tags\<close>: the two inner loops, the loop over \<^verbatim>\<open>node_ids\<close>, and the method.
  \<^verbatim>\<open>list.remove\<close> deletes the first occurrence.
\<close>

definition add_tag :: "ref \<Rightarrow> string \<Rightarrow> string \<Rightarrow> manager \<Rightarrow> manager" where
  "add_tag r node_id tag m =
     (let node = node_heap m r in
      if tag \<notin> set (n_tags node)
      then m\<lparr> node_heap := (node_heap m)(r := node\<lparr> n_tags := n_tags node @ [tag] \<rparr>),
              tag_index := index_add tag node_id (tag_index m) \<rparr>
      else m)"

definition remove_tag :: "ref \<Rightarrow> string \<Rightarrow> string \<Rightarrow> manager \<Rightarrow> manager" where
  "remove_tag r node_id tag m =
     (let node = node_heap m r in
      if tag \<in> set (n_tags node)
      then m\<lparr> node_heap := (node_heap m)(r := node\<lparr> n_tags := remove1 tag (n_tags node) \<rparr>),
              tag_index := index_discard tag node_id (tag_index m) \<rparr>
      else m)"

definition tag_one :: "string list option \<Rightarrow> string list option \<Rightarrow> string
    \<Rightarrow> manager \<times> ref list \<Rightarrow> manager \<times> ref list" where
  "tag_one add_tags remove_tags node_id st =
     (case st of (m, updated) \<Rightarrow>
        (case node_index m node_id of
           None \<Rightarrow> (m, updated)
         | Some r \<Rightarrow>
             (let m1 = (case add_tags of None \<Rightarrow> m | Some ts \<Rightarrow> fold (add_tag r node_id) ts m);
                  m2 = (case remove_tags of None \<Rightarrow> m1
                        | Some ts \<Rightarrow> fold (remove_tag r node_id) ts m1)
              in (m2, updated @ [r]))))"

definition bulk_update_tags :: "string list \<Rightarrow> string list option \<Rightarrow> string list option
    \<Rightarrow> manager \<Rightarrow> (error + node list) \<times> manager" where
  "bulk_update_tags node_ids add_tags remove_tags m =
     (case m_diagram m of
        None \<Rightarrow> (Inl NoDiagramOpen, m)
      | Some d \<Rightarrow>
          (case fold (tag_one add_tags remove_tags) node_ids (save_to_history m, []) of
             (m1, updated) \<Rightarrow>
               (Inr (map (node_heap m1) updated),
                if updated \<noteq> [] then m1\<lparr> dirty := True \<rparr> else m1)))"

text \<open>
  \<^verbatim>\<open>align_nodes\<close> and \<^verbatim>\<open>distribute_nodes\<close> of the manager hand the node objects of the
  current diagram to the layout functions.
\<close>

definition write_node :: "ref \<times> node \<Rightarrow> (ref \<Rightarrow> node) \<Rightarrow> (ref \<Rightarrow> node)" where
  "write_node rn h = h(fst rn := snd rn)"

definition store_nodes :: "ref list \<Rightarrow> node list \<Rightarrow> manager \<Rightarrow> manager" where
  "store_nodes refs ns m = m\<lparr> node_heap := fold write_node (zip refs ns) (node_heap m) \<rparr>"

definition layout_call :: "(node list \<Rightarrow> bool \<times> node list) \<Rightarrow> manager \<Rightarrow> bool \<times> manager" where
  "layout_call f m =
     (case m_diagram m of
        None \<Rightarrow> (False, m)
      | Some d \<Rightarrow>
          (let m1 = save_to_history m in
           case f (map (node_heap m1) (o_nodes d)) of
             (success, ns) \<Rightarrow>
               (let m2 = store_nodes (o_nodes d) ns m1
                in (success, if success then m2\<lparr> dirty := True \<rparr> else m2))))"

definition align_nodes :: "string list \<Rightarrow> string \<Rightarrow> manager \<Rightarrow> bool \<times> manager" where
  "align_nodes node_ids alignment m =
     layout_call (\<lambda>ns. core_align_nodes ns node_ids alignment) m"

definition distribute_nodes :: "string list \<Rightarrow> string \<Rightarrow> manager \<Rightarrow> bool \<times> manager" where
  "distribute_nodes node_ids axis m =
     layout_call (\<lambda>ns. core_distribute_nodes ns node_ids axis) m"

section \<open>Notions used to state the properties\<close>

text \<open>
  \<^verbatim>\<open>to_json_dict\<close> does not write a side that is the empty string, so such a side is
  read back as \<^verbatim>\<open>None\<close>: the diagram with every empty-string side unset.
\<close>

definition normal_side :: "string option \<Rightarrow> string option" where
  "normal_side s = (if s = Some [] then None else s)"

definition normal_edge :: "edge \<Rightarrow> edge" where
  "normal_edge e =
     e\<lparr> e_source_side := normal_side (e_source_side e),
        e_target_side := normal_side (e_target_side e) \<rparr>"

definition normal_diagram :: "diagram \<Rightarrow> diagram" where
  "normal_diagram dg = dg\<lparr> d_edges := map normal_edge (d_edges dg) \<rparr>"

definition no_empty_side :: "diagram \<Rightarrow> bool" where
  "no_empty_side dg =
     list_all (\<lambda>e. e_source_side e \<noteq> Some [] \<and> e_target_side e \<noteq> Some []) (d_edges dg)"

text \<open>
  Edge dicts in the three spellings of the endpoints, each with the other entries
  \<open>rest\<close>, which name no endpoint; and a diagram dict with its \<^verbatim>\<open>edges\<close> entry set.
\<close>

definition no_endpoint_keys :: "pydict \<Rightarrow> bool" where
  "no_endpoint_keys rest =
     list_all (\<lambda>k. map_of rest k = None)
       [''source'', ''target'', ''from'', ''to'', ''from_node'', ''to_node'']"

definition legacy_edge :: "string \<times> string \<times> pydict \<Rightarrow> json" where
  "legacy_edge x =
     (case x of (s, t, rest) \<Rightarrow> JDict ((''from'', JStr s) # (''to'', JStr t) # rest))"

definition legacy_node_edge :: "string \<times> string \<times> pydict \<Rightarrow> json" where
  "legacy_node_edge x =
     (case x of (s, t, rest) \<Rightarrow> JDict ((''from_node'', JStr s) # (''to_node'', JStr t) # rest))"

definition canonical_edge :: "string \<times> string \<times> pydict \<Rightarrow> json" where
  "canonical_edge x =
     (case x of (s, t, rest) \<Rightarrow> JDict ((''source'', JStr s) # (''target'', JStr t) # rest))"

definition with_edges :: "json list \<Rightarrow> pydict \<Rightarrow> pydict" where
  "with_edges es data = AList.update ''edges'' (JList es) data"

text \<open>
  The mutating operations of the store as one type, a call that tells whether the
  operation took effect (it returned its node, edge, list or diagram, or \<^verbatim>\<open>True\<close>; not
  \<^verbatim>\<open>None\<close>, \<^verbatim>\<open>False\<close> or an exception), and the run of a sequence of operations
  that all take effect.
\<close>

datatype op =
    AddNode string pydict
  | UpdateNode string node_update
  | DeleteNode string
  | AddEdge string "string option" "string option" "string option" "string option" string
      "string option" "string option"
  | UpdateEdge string edge_update
  | DeleteEdge string
  | BulkUpdateTags "string list" "string list option" "string list option"
  | UpdateDiagramInfo "string option" "int option" "bool option"

definition returned :: "error + 'a \<Rightarrow> bool" where
  "returned r = (case r of Inl err \<Rightarrow> False | Inr v \<Rightarrow> True)"

fun apply_op :: "op \<Rightarrow> manager \<Rightarrow> bool \<times> manager" where
  "apply_op (AddNode hex kwargs) m =
     (case add_node hex kwargs m of (r, m') \<Rightarrow> (returned r, m'))"
| "apply_op (UpdateNode node_id kwargs) m =
     (case update_node node_id kwargs m of (r, m') \<Rightarrow> (returned r \<and> r \<noteq> Inr None, m'))"
| "apply_op (DeleteNode node_id) m =
     (case delete_node node_id m of (r, m') \<Rightarrow> (r = Inr True, m'))"
| "apply_op (AddEdge hex source target from_node to_node label source_side target_side) m =
     (case add_edge hex source target from_node to_node label source_side target_side m of
        (r, m') \<Rightarrow> (returned r, m'))"
| "apply_op (UpdateEdge edge_id kwargs) m =
     (case update_edge edge_id kwargs m of (r, m') \<Rightarrow> (returned r \<and> r \<noteq> Inr None, m'))"
| "apply_op (DeleteEdge edge_id) m =
     (case delete_edge edge_id m of (r, m') \<Rightarrow> (r = Inr True, m'))"
| "apply_op (BulkUpdateTags node_ids add_tags remove_tags) m =
     (case bulk_update_tags node_ids add_tags remove_tags m of (r, m') \<Rightarrow> (returned r, m'))"
| "apply_op (UpdateDiagramInfo name v_grid v_show) m =
     (case update_diagram_info name v_grid v_show m of (r, m') \<Rightarrow> (returned r, m'))"

fun run :: "op list \<Rightarrow> manager \<Rightarrow> manager option" where
  "run [] m = Some m"
| "run (p # ps) m = (case apply_op p m of (ok, m') \<Rightarrow> if ok then run ps m' else None)"

text \<open>
  \<open>n\<close> calls of \<^const>\<open>undo\<close> (of \<^const>\<open>redo\<close>) that each restore a diagram; \<open>None\<close> when
  one of them has nothing to do or raises.
\<close>

fun undo_times :: "entropy \<Rightarrow> nat \<Rightarrow> manager \<Rightarrow> manager option" where
  "undo_times env 0 m = Some m"
| "undo_times env (Suc n) m =
     (case undo env m of
        (Inr (Some dg), m') \<Rightarrow> undo_times env n m'
      | (_, m') \<Rightarrow> None)"

fun redo_times :: "entropy \<Rightarrow> nat \<Rightarrow> manager \<Rightarrow> manager option" where
  "redo_times env 0 m = Some m"
| "redo_times env (Suc n) m =
     (case redo env m of
        (Inr (Some dg), m') \<Rightarrow> redo_times env n m'
      | (_, m') \<Rightarrow> None)"

text \<open>The set an index holds under a key; a missing key holds nothing.\<close>

definition index_set :: "(string \<rightharpoonup> string list) \<Rightarrow> string \<Rightarrow> string set" where
  "index_set idx k = (case idx k of None \<Rightarrow> {} | Some s \<Rightarrow> set s)"

text \<open>The directed graph of an edge list.\<close>

definition edge_rel :: "edge list \<Rightarrow> (string \<times> string) set" where
  "edge_rel edges = set (map (\<lambda>e. (e_source e, e_target e)) edges)"

text \<open>
  Two managers with the same undo and redo stacks and the same bound, both with or both
  without a diagram; and a manager none of whose edge sides is the empty string.
\<close>

definition same_stacks :: "manager \<Rightarrow> manager \<Rightarrow> bool" where
  "same_stacks m m' =
     (history m' = history m \<and> future m' = future m \<and> max_history m' = max_history m
      \<and> (m_diagram m' = None) = (m_diagram m = None))"

definition clean :: "manager \<Rightarrow> bool" where
  "clean m = (case current m of None \<Rightarrow> True | Some c \<Rightarrow> no_empty_side c)"

section \<open>Sample data\<close>

text \<open>Concrete inputs on which the statements below are instantiated.\<close>

definition env0 :: entropy where
  "env0 = \<lparr> node_hex = (\<lambda>i. ''0a1b2c3d''), edge_hex = (\<lambda>i. ''4e5f6a7b''),
            diagram_hex = ''89abcdef'', utcnow_created = ''2024-05-01T09:30:00'',
            utcnow_updated = ''2024-05-01T09:30:00'' \<rparr>"

definition plain_node :: "string \<Rightarrow> string \<Rightarrow> node" where
  "plain_node i l =
     \<lparr> n_id = i, n_label = l, n_type = ''component'', n_shape = ''rectangle'',
       n_color = ''#3478f6'', n_x = 100, n_y = 100, n_width = 150, n_height = 80,
       n_tags = [], n_description = [], n_border_style = ''solid'', n_fill_opacity = 1,
       n_z_index = 0, n_rotation = 0 \<rparr>"

definition plain_edge :: "string \<Rightarrow> string \<Rightarrow> string \<Rightarrow> edge" where
  "plain_edge i s t =
     \<lparr> e_id = i, e_source = s, e_target = t, e_label = [], e_source_side = None,
       e_target_side = None, e_color = ''#666666'', e_width = 2, e_style = ''solid'',
       e_arrow_start = ''none'', e_arrow_end = ''filled'', e_arrow_size = 12 \<rparr>"

definition store0 :: manager where
  "store0 = new_diagram env0 ''Demo'' (DiagramManager 100)"

definition store1 :: manager where
  "store1 = snd (add_node ''0a1b2c3d'' [(''id'', JStr ''a''), (''label'', JStr ''Alpha'')] store0)"

definition meta0 :: metadata where
  "meta0 = \<lparr> created_at = ''2024-05-01T09:30:00'', updated_at = ''2024-05-01T09:30:00'',
             grid_size = 20, show_grid = True \<rparr>"

text \<open>A diagram file with two nodes and metadata that differs from the defaults.\<close>

definition file0 :: pydict where
  "file0 =
     [(''id'', JStr ''d1''), (''name'', JStr ''Rooms''),
      (''nodes'', JList [JDict [(''id'', JStr ''a''), (''label'', JStr ''Alpha'')],
                         JDict [(''id'', JStr ''b''), (''label'', JStr ''Beta'')]]),
      (''metadata'', JDict [(''created_at'', JStr ''2023-11-05T08:00:00''),
                            (''updated_at'', JStr ''2023-11-06T10:15:00''),
                            (''grid_size'', JInt 10), (''show_grid'', JBool False)])]"

definition rooms :: "edge list \<Rightarrow> diagram" where
  "rooms es =
     \<lparr> d_id = ''d1'', d_name = ''Rooms'',
       d_nodes = [plain_node ''a'' ''Alpha'', plain_node ''b'' ''Beta''], d_edges = es,
       d_metadata = \<lparr> created_at = ''2023-11-05T08:00:00'',
                      updated_at = ''2023-11-06T10:15:00'', grid_size = 10,
                      show_grid = False \<rparr> \<rparr>"

text \<open>Keyword arguments: none supplied, and \<^verbatim>\<open>x\<close> alone.\<close>

definition no_node_update :: node_update where
  "no_node_update =
     \<lparr> u_id = None, u_label = None, u_type = None, u_shape = None, u_color = None,
       u_x = None, u_y = None, u_width = None, u_height = None, u_tags = None,
       u_description = None, u_border_style = None, u_fill_opacity = None,
       u_z_index = None, u_rotation = None \<rparr>"

definition only_x :: "real \<Rightarrow> node_update" where
  "only_x v = no_node_update\<lparr> u_x := Some v \<rparr>"

definition no_edge_update :: edge_update where
  "no_edge_update =
     \<lparr> v_id = None, v_source = None, v_target = None, v_label = None,
       v_source_side = None, v_target_side = None, v_color = None, v_width = None,
       v_style = None, v_arrow_start = None, v_arrow_end = None, v_arrow_size = None \<rparr>"

text \<open>
  More sample stores: a second node; then an edge whose \<^verbatim>\<open>source_side\<close> is the empty
  string; and, from the two-node store, the node \<open>a\<close> moved.
\<close>

definition store2 :: manager where
  "store2 = snd (add_node ''1b2c3d4e'' [(''id'', JStr ''b''), (''label'', JStr ''Beta'')] store1)"

definition store3 :: manager where
  "store3 = snd (add_edge ''4e5f6a7b'' (Some ''a'') (Some ''b'') None None [] (Some []) None store2)"

definition snap0 :: pydict where
  "snap0 = to_json_dict \<lparr> d_id = ''diagram-89abcdef'', d_name = ''Demo'',
      d_nodes = [], d_edges = [], d_metadata = meta0 \<rparr>"

definition demo :: "node list \<Rightarrow> edge list \<Rightarrow> diagram" where
  "demo ns es = \<lparr> d_id = ''diagram-89abcdef'', d_name = ''Demo'', d_nodes = ns, d_edges = es,
      d_metadata = meta0 \<rparr>"

definition edge3 :: edge where
  "edge3 = (plain_edge ''e4e5f6a7b'' ''a'' ''b'')\<lparr> e_source_side := Some [] \<rparr>"

definition storeW :: manager where
  "storeW = snd (update_node ''a'' (only_x 5) store2)"

text \<open>A node whose tag list names a tag twice, and the store after that tag is removed.\<close>

definition store_tagged :: manager where
  "store_tagged =
     snd (add_node ''0a1b2c3d''
            [(''id'', JStr ''n1''), (''tags'', JList [JStr ''a'', JStr ''a''])] store0)"

definition store_untagged :: manager where
  "store_untagged = snd (bulk_update_tags [''n1''] None (Some [''a'']) store_tagged)"








section \<open>Properties\<close>

subsection \<open>Auxiliary facts\<close>

lemma bind_Inr [simp]: "bind (Inr v) f = f v"
  by (simp add: bind_def)

lemma bind_Inl [simp]: "bind (Inl e) f = Inl e"
  by (simp add: bind_def)

lemma filter_positions:
  "map (nth xs) (filter (\<lambda>i. P (xs ! i)) [0..<length xs]) = filter P xs"
proof -
  have "filter P (map (nth xs) [0..<length xs])
      = map (nth xs) (filter (P \<circ> nth xs) [0..<length xs])"
    by (rule filter_map)
  then show ?thesis by (simp add: map_nth comp_def)
qed

lemma align_few:
  "length (filter (\<lambda>n. n_id n \<in> set node_ids) nodes) < 2 \<Longrightarrow>
     core_align_nodes nodes node_ids alignment = (False, nodes)"
  by (simp add: core_align_nodes_def)

lemma distribute_few:
  assumes "length (filter (\<lambda>n. n_id n \<in> set node_ids) nodes) < 3"
  shows "core_distribute_nodes nodes node_ids axis = (False, nodes)"
proof -
  have "length (filter (\<lambda>i. n_id (nodes ! i) \<in> set node_ids) [0..<length nodes])
      = length (filter (\<lambda>n. n_id n \<in> set node_ids) nodes)"
    using arg_cong [OF filter_positions [of nodes "\<lambda>n. n_id n \<in> set node_ids"], of length]
    by simp
  with assms show ?thesis
    by (simp add: core_distribute_nodes_def)
qed

lemma write_node_same: "write_node (r, h r) h = h"
  unfolding write_node_def by (simp only: fst_conv snd_conv fun_upd_triv)

lemma write_back_same: "fold write_node (zip refs (map h refs)) h = h"
  by (induction refs) (simp_all add: write_node_same)

lemma store_nodes_same: "store_nodes refs (map (node_heap m) refs) m = m"
  by (simp add: store_nodes_def write_back_same)

lemma save_keeps [simp]:
  "node_heap (save_to_history m) = node_heap m"
  "edge_heap (save_to_history m) = edge_heap m"
  "m_diagram (save_to_history m) = m_diagram m"
  "max_history (save_to_history m) = max_history m"
  "node_index (save_to_history m) = node_index m"
  "edge_index (save_to_history m) = edge_index m"
  "tag_index (save_to_history m) = tag_index m"
  "type_index (save_to_history m) = type_index m"
  "edges_by_node (save_to_history m) = edges_by_node m"
  "next_ref (save_to_history m) = next_ref m"
  "dirty (save_to_history m) = dirty m"
  by (simp_all add: save_to_history_def split: option.split)

lemma save_stacks:
  "m_diagram m = Some d \<Longrightarrow> future (save_to_history m) = []"
  "m_diagram m = Some d \<Longrightarrow>
     history (save_to_history m) = trim (max_history m) (history m @ [to_json_dict (deref m d)])"
  by (simp_all add: save_to_history_def)

lemma current_save [simp]: "current (save_to_history m) = current m"
  by (cases "m_diagram m") (simp_all add: current_def deref_def)

lemma layout_call_stacks:
  "history (snd (layout_call f m)) = history (save_to_history m)"
  "future (snd (layout_call f m)) = future (save_to_history m)"
  by (simp_all add: layout_call_def store_nodes_def save_to_history_def Let_def
      split: option.split prod.split)

lemma layout_call_fail:
  assumes "m_diagram m = Some d"
    and "f (map (node_heap m) (o_nodes d)) = (False, map (node_heap m) (o_nodes d))"
  shows "layout_call f m = (False, save_to_history m)"
proof -
  have "store_nodes (o_nodes d) (map (node_heap (save_to_history m)) (o_nodes d))
          (save_to_history m) = save_to_history m"
    by (rule store_nodes_same)
  then show ?thesis using assms by (simp add: layout_call_def Let_def)
qed

lemma store1_diagram:
  "m_diagram store1 = Some \<lparr> o_id = ''diagram-89abcdef'', o_name = ''Demo'', o_nodes = [0],
      o_edges = [], o_metadata = meta0 \<rparr>"
  "node_heap store1 0 = plain_node ''a'' ''Alpha''"
  "history store1 = [to_json_dict \<lparr> d_id = ''diagram-89abcdef'', d_name = ''Demo'',
      d_nodes = [], d_edges = [], d_metadata = meta0 \<rparr>]"
  "max_history store1 = 100"
  "node_index store1 = [''a'' \<mapsto> 0]"
  "edge_index store1 = Map.empty"
  "future store1 = []"
  by (simp_all add: store1_def store0_def new_diagram_def DiagramManager_def install_def
      rebuild_indexes_def env0_def add_node_def save_to_history_def Node_def str_field_def
      float_field_def int_field_def str_list_field_def index_node_def index_add_def
      set_add_def on_diagram_def trim_def deref_def Let_def plain_node_def meta0_def)


lemma setattr_None [simp]: "setattr None upd obj = obj"
  by (simp add: setattr_def)

lemma setattr_Some [simp]: "setattr (Some x) upd obj = upd x obj"
  by (simp add: setattr_def)



lemma str_items_map: "str_items (map JStr ss) = Inr ss"
  by (induction ss) simp_all

lemma Node_model_dump: "Node hex (model_dump n) = Inr n"
  by (simp add: Node_def model_dump_def str_field_def float_field_def int_field_def
      str_list_field_def str_items_map)

lemma map_of_side_item:
  "map_of (side_item k s) k' = (if k' = k then map_option JStr (normal_side s) else None)"
  by (cases s) (simp_all add: side_item_def normal_side_def)

lemma optional_side:
  "map_of d k = map_option JStr s \<Longrightarrow> optional_str_field d k = Inr s"
  by (cases s) (simp_all add: optional_str_field_def)

lemma edge_dump_lookup:
  "map_of (edge_to_json_dict e) ''id'' = Some (JStr (e_id e))"
  "map_of (edge_to_json_dict e) ''source'' = Some (JStr (e_source e))"
  "map_of (edge_to_json_dict e) ''target'' = Some (JStr (e_target e))"
  "map_of (edge_to_json_dict e) ''label'' = Some (JStr (e_label e))"
  "map_of (edge_to_json_dict e) ''color'' = Some (JStr (e_color e))"
  "map_of (edge_to_json_dict e) ''width'' = Some (JFloat (e_width e))"
  "map_of (edge_to_json_dict e) ''style'' = Some (JStr (e_style e))"
  "map_of (edge_to_json_dict e) ''arrow_start'' = Some (JStr (e_arrow_start e))"
  "map_of (edge_to_json_dict e) ''arrow_end'' = Some (JStr (e_arrow_end e))"
  "map_of (edge_to_json_dict e) ''arrow_size'' = Some (JFloat (e_arrow_size e))"
  "map_of (edge_to_json_dict e) ''source_side''
     = map_option JStr (normal_side (e_source_side e))"
  "map_of (edge_to_json_dict e) ''target_side''
     = map_option JStr (normal_side (e_target_side e))"
  "map_of (edge_to_json_dict e) ''from'' = None"
  "map_of (edge_to_json_dict e) ''from_node'' = None"
  "map_of (edge_to_json_dict e) ''to'' = None"
  "map_of (edge_to_json_dict e) ''to_node'' = None"
  by (simp_all add: edge_to_json_dict_def map_add_def map_of_side_item split: option.split)

lemma convert_dump: "convert_legacy_fields (edge_to_json_dict e) = edge_to_json_dict e"
  by (simp add: convert_legacy_fields_def move_key_def edge_dump_lookup)

lemma Edge_to_json: "Edge hex (edge_to_json_dict e) = Inr (normal_edge e)"
  unfolding Edge_def convert_dump Let_def
  by (simp add: edge_dump_lookup str_field_def float_field_def required_str_field_def
      optional_side normal_edge_def)

lemma parse_nodes_dump:
  "parse_nodes hex i (map (\<lambda>n. JDict (model_dump n)) ns) = Inr ns"
  by (induction ns arbitrary: i) (simp_all add: Node_model_dump)

lemma parse_edges_dump:
  "parse_edges hex i (map (\<lambda>e. JDict (edge_to_json_dict e)) es) = Inr (map normal_edge es)"
  by (induction es arbitrary: i) (simp_all add: Edge_to_json)

lemma from_to_json: "from_json_dict env (to_json_dict dg) = Inr (normal_diagram dg)"
  by (simp add: from_json_dict_def to_json_dict_def list_entry_def time_entry_def
      parse_nodes_dump parse_edges_dump int_field_def bool_field_def str_field_def
      isoformat_def fromisoformat_def normal_diagram_def)

lemma side_item_normal: "side_item k (normal_side s) = side_item k s"
  by (cases s) (simp_all add: side_item_def normal_side_def)

lemma edge_json_normal: "edge_to_json_dict (normal_edge e) = edge_to_json_dict e"
  by (simp add: edge_to_json_dict_def normal_edge_def side_item_normal)

lemma to_json_normal: "to_json_dict (normal_diagram dg) = to_json_dict dg"
  by (simp add: to_json_dict_def normal_diagram_def edge_json_normal comp_def)

lemma normal_edge_same:
  "e_source_side e \<noteq> Some [] \<Longrightarrow> e_target_side e \<noteq> Some [] \<Longrightarrow> normal_edge e = e"
  by (simp add: normal_edge_def normal_side_def)

lemma normal_diagram_same:
  assumes "no_empty_side dg"
  shows "normal_diagram dg = dg"
proof -
  have "map normal_edge (d_edges dg) = d_edges dg"
    using assms by (intro map_idI) (simp add: no_empty_side_def list_all_iff normal_edge_same)
  then show ?thesis by (simp add: normal_diagram_def)
qed

lemma normal_diagram_twice: "normal_diagram (normal_diagram dg) = normal_diagram dg"
  by (simp add: normal_diagram_def normal_edge_def normal_side_def)

lemma Edge_cong:
  assumes "\<And>k. map_of (convert_legacy_fields a) k = map_of (convert_legacy_fields b) k"
  shows "Edge hex a = Edge hex b"
  unfolding Edge_def Let_def str_field_def required_str_field_def optional_str_field_def
    float_field_def
  by (simp only: assms)

lemma map_of_move_key:
  "map_of (move_key l c d) k =
     (if map_of d l \<noteq> None \<and> map_of d c = None
      then (if k = c then map_of d l else if k = l then None else map_of d k)
      else map_of d k)"
  by (cases "map_of d l") (auto simp: move_key_def update_conv' delete_conv')

lemma move_key_other:
  "k \<noteq> c \<Longrightarrow> k \<noteq> l \<Longrightarrow> map_of (move_key l c d) k = map_of d k"
  by (simp add: map_of_move_key)

lemma move_key_canonical:
  "l \<noteq> c \<Longrightarrow>
     map_of (move_key l c d) c = (case map_of d c of None \<Rightarrow> map_of d l | Some v \<Rightarrow> Some v)"
  by (cases "map_of d c"; cases "map_of d l") (simp_all add: map_of_move_key)

lemma convert_source:
  "map_of (convert_legacy_fields e) ''source''
     = (case map_of e ''source'' of
          Some v \<Rightarrow> Some v
        | None \<Rightarrow> (case map_of e ''from'' of Some v \<Rightarrow> Some v | None \<Rightarrow> map_of e ''from_node''))"
  by (simp add: convert_legacy_fields_def move_key_other move_key_canonical split: option.split)

lemma convert_target:
  "map_of (convert_legacy_fields e) ''target''
     = (case map_of e ''target'' of
          Some v \<Rightarrow> Some v
        | None \<Rightarrow> (case map_of e ''to'' of Some v \<Rightarrow> Some v | None \<Rightarrow> map_of e ''to_node''))"
  by (simp add: convert_legacy_fields_def move_key_other move_key_canonical split: option.split)

lemma Edge_legacy:
  assumes "no_endpoint_keys rest"
  shows "Edge hex ((''from'', JStr s) # (''to'', JStr t) # rest)
       = Edge hex ((''source'', JStr s) # (''target'', JStr t) # rest)"
proof (rule Edge_cong)
  fix k
  show "map_of (convert_legacy_fields ((''from'', JStr s) # (''to'', JStr t) # rest)) k
      = map_of (convert_legacy_fields ((''source'', JStr s) # (''target'', JStr t) # rest)) k"
    using assms
    by (simp add: no_endpoint_keys_def convert_legacy_fields_def map_of_move_key)
qed

lemma Edge_legacy_node:
  assumes "no_endpoint_keys rest"
  shows "Edge hex ((''from_node'', JStr s) # (''to_node'', JStr t) # rest)
       = Edge hex ((''source'', JStr s) # (''target'', JStr t) # rest)"
proof (rule Edge_cong)
  fix k
  show "map_of (convert_legacy_fields ((''from_node'', JStr s) # (''to_node'', JStr t) # rest)) k
      = map_of (convert_legacy_fields ((''source'', JStr s) # (''target'', JStr t) # rest)) k"
    using assms
    by (simp add: no_endpoint_keys_def convert_legacy_fields_def map_of_move_key)
qed

lemma parse_edges_legacy:
  "list_all (\<lambda>x. no_endpoint_keys (snd (snd x))) xs \<Longrightarrow>
     parse_edges hex i (map legacy_edge xs) = parse_edges hex i (map canonical_edge xs)"
proof (induction xs arbitrary: i)
  case Nil
  show ?case by simp
next
  case (Cons x xs)
  obtain s t rest where x: "x = (s, t, rest)" by (cases x) auto
  from Cons.prems have "no_endpoint_keys rest" by (simp add: x)
  then have "Edge (hex i) ((''from'', JStr s) # (''to'', JStr t) # rest)
       = Edge (hex i) ((''source'', JStr s) # (''target'', JStr t) # rest)"
    by (rule Edge_legacy)
  moreover have "parse_edges hex (Suc i) (map legacy_edge xs)
      = parse_edges hex (Suc i) (map canonical_edge xs)"
    using Cons.prems by (intro Cons.IH) simp
  moreover have "legacy_edge x = JDict ((''from'', JStr s) # (''to'', JStr t) # rest)"
    by (simp add: x legacy_edge_def)
  moreover have "canonical_edge x = JDict ((''source'', JStr s) # (''target'', JStr t) # rest)"
    by (simp add: x canonical_edge_def)
  ultimately show ?case
    by simp
qed

lemma parse_edges_legacy_node:
  "list_all (\<lambda>x. no_endpoint_keys (snd (snd x))) xs \<Longrightarrow>
     parse_edges hex i (map legacy_node_edge xs) = parse_edges hex i (map canonical_edge xs)"
proof (induction xs arbitrary: i)
  case Nil
  show ?case by simp
next
  case (Cons x xs)
  obtain s t rest where x: "x = (s, t, rest)" by (cases x) auto
  from Cons.prems have "no_endpoint_keys rest" by (simp add: x)
  then have "Edge (hex i) ((''from_node'', JStr s) # (''to_node'', JStr t) # rest)
       = Edge (hex i) ((''source'', JStr s) # (''target'', JStr t) # rest)"
    by (rule Edge_legacy_node)
  moreover have "parse_edges hex (Suc i) (map legacy_node_edge xs)
      = parse_edges hex (Suc i) (map canonical_edge xs)"
    using Cons.prems by (intro Cons.IH) simp
  moreover have "legacy_node_edge x
      = JDict ((''from_node'', JStr s) # (''to_node'', JStr t) # rest)"
    by (simp add: x legacy_node_edge_def)
  moreover have "canonical_edge x = JDict ((''source'', JStr s) # (''target'', JStr t) # rest)"
    by (simp add: x canonical_edge_def)
  ultimately show ?case
    by simp
qed

lemma from_json_with_edges:
  assumes "parse_edges (edge_hex env) 0 es = parse_edges (edge_hex env) 0 es'"
  shows "from_json_dict env (with_edges es data) = from_json_dict env (with_edges es' data)"
proof -
  have other: "\<And>k xs. k \<noteq> ''edges'' \<Longrightarrow> map_of (with_edges xs data) k = map_of data k"
    by (simp add: with_edges_def update_conv')
  have edges: "\<And>xs. list_entry (with_edges xs data) ''edges'' = Inr xs"
    by (simp add: with_edges_def update_conv' list_entry_def)
  have n: "list_entry (with_edges es data) ''nodes'' = list_entry (with_edges es' data) ''nodes''"
    by (simp add: list_entry_def other)
  have i: "\<And>dflt. str_field (with_edges es data) ''id'' dflt
      = str_field (with_edges es' data) ''id'' dflt"
    by (simp add: str_field_def other)
  have nm: "\<And>dflt. str_field (with_edges es data) ''name'' dflt
      = str_field (with_edges es' data) ''name'' dflt"
    by (simp add: str_field_def other)
  have md: "map_of (with_edges es data) ''metadata'' = map_of (with_edges es' data) ''metadata''"
    by (simp add: other)
  show ?thesis
    unfolding from_json_dict_def edges n i nm md
    by (simp only: bind_Inr assms)
qed

lemma file0_parsed:
  "from_json_dict env0 (with_edges [canonical_edge (''a'', ''b'', rest)] file0)
     = bind (Edge ''4e5f6a7b'' ((''source'', JStr ''a'') # (''target'', JStr ''b'') # rest))
         (\<lambda>e. Inr (rooms [e]))"
  by (cases "Edge ''4e5f6a7b'' ((''source'', JStr ''a'') # (''target'', JStr ''b'') # rest)")
     (simp_all add: from_json_dict_def with_edges_def file0_def canonical_edge_def
      list_entry_def time_entry_def int_field_def bool_field_def str_field_def
      fromisoformat_def env0_def Node_def float_field_def str_list_field_def rooms_def
      plain_node_def)

lemma plain_edge_parsed:
  "Edge hex [(''source'', JStr s), (''target'', JStr t), (''id'', JStr i)] = Inr (plain_edge i s t)"
  "Edge hex [(''source'', JStr s), (''target'', JStr t), (''id'', JStr i),
             (''source_side'', JStr side)]
     = Inr ((plain_edge i s t)\<lparr> e_source_side := Some side \<rparr>)"
  by (simp_all add: Edge_def Let_def convert_legacy_fields_def move_key_def str_field_def
      required_str_field_def optional_str_field_def float_field_def plain_edge_def)

lemma index_node_keeps [simp]:
  "history (index_node r m) = history m" "future (index_node r m) = future m"
  "max_history (index_node r m) = max_history m" "m_diagram (index_node r m) = m_diagram m"
  "node_heap (index_node r m) = node_heap m" "edge_heap (index_node r m) = edge_heap m"
  by (simp_all add: index_node_def Let_def)

lemma unindex_node_keeps [simp]:
  "history (unindex_node r m) = history m" "future (unindex_node r m) = future m"
  "max_history (unindex_node r m) = max_history m" "m_diagram (unindex_node r m) = m_diagram m"
  "node_heap (unindex_node r m) = node_heap m" "edge_heap (unindex_node r m) = edge_heap m"
  by (simp_all add: unindex_node_def Let_def)

lemma index_edge_keeps [simp]:
  "history (index_edge r m) = history m" "future (index_edge r m) = future m"
  "max_history (index_edge r m) = max_history m" "m_diagram (index_edge r m) = m_diagram m"
  "node_heap (index_edge r m) = node_heap m" "edge_heap (index_edge r m) = edge_heap m"
  by (simp_all add: index_edge_def Let_def)

lemma unindex_edge_keeps [simp]:
  "history (unindex_edge r m) = history m" "future (unindex_edge r m) = future m"
  "max_history (unindex_edge r m) = max_history m" "m_diagram (unindex_edge r m) = m_diagram m"
  "node_heap (unindex_edge r m) = node_heap m" "edge_heap (unindex_edge r m) = edge_heap m"
  by (simp_all add: unindex_edge_def Let_def)

lemma on_diagram_keeps [simp]:
  "history (on_diagram f m) = history m" "future (on_diagram f m) = future m"
  "max_history (on_diagram f m) = max_history m"
  "m_diagram (on_diagram f m) = map_option f (m_diagram m)"
  "node_heap (on_diagram f m) = node_heap m" "edge_heap (on_diagram f m) = edge_heap m"
  by (simp_all add: on_diagram_def)

lemma same_stacks_refl [simp]: "same_stacks m m"
  by (simp add: same_stacks_def)

lemma same_stacks_trans: "same_stacks a b \<Longrightarrow> same_stacks b c \<Longrightarrow> same_stacks a c"
  by (simp add: same_stacks_def)

lemma same_stacks_fold:
  assumes "\<And>x m. same_stacks m (f x m)"
  shows "same_stacks m (fold f xs m)"
proof (induction xs arbitrary: m)
  case Nil
  show ?case by simp
next
  case (Cons x xs)
  show ?case using assms [of m x] Cons [of "f x m"] by (auto intro: same_stacks_trans)
qed

lemma same_stacks_drop_edge: "same_stacks m (drop_edge i m)"
  by (simp add: drop_edge_def same_stacks_def split: option.split)

lemma same_stacks_add_tag: "same_stacks m (add_tag r i t m)"
  by (simp add: add_tag_def same_stacks_def Let_def)

lemma same_stacks_remove_tag: "same_stacks m (remove_tag r i t m)"
  by (simp add: remove_tag_def same_stacks_def Let_def)

lemma same_stacks_tag_one: "same_stacks (fst st) (fst (tag_one a b i st))"
proof (cases st)
  case (Pair m updated)
  show ?thesis
  proof (cases "node_index m i")
    case None
    then show ?thesis by (simp add: Pair tag_one_def)
  next
    case (Some r)
    have 1: "same_stacks m (case a of None \<Rightarrow> m | Some ts \<Rightarrow> fold (add_tag r i) ts m)"
      by (cases a) (simp_all add: same_stacks_fold same_stacks_add_tag)
    have 2: "\<And>m1. same_stacks m1 (case b of None \<Rightarrow> m1 | Some ts \<Rightarrow> fold (remove_tag r i) ts m1)"
      by (cases b) (simp_all add: same_stacks_fold same_stacks_remove_tag)
    show ?thesis
      using same_stacks_trans [OF 1 2] by (simp add: Pair Some tag_one_def Let_def)
  qed
qed

lemma same_stacks_tag_fold: "same_stacks (fst st) (fst (fold (tag_one a b) ids st))"
proof (induction ids arbitrary: st)
  case Nil
  show ?case by simp
next
  case (Cons i ids)
  show ?case
    using same_stacks_tag_one [of st a b i] Cons [of "tag_one a b i st"]
    by (auto intro: same_stacks_trans)
qed

lemma op_pushes:
  assumes "apply_op p m = (True, m1)"
  shows "m_diagram m \<noteq> None \<and> same_stacks (save_to_history m) m1"
proof (cases p)
  case (AddNode hex kwargs)
  then show ?thesis using assms
    by (auto simp: add_node_def Let_def same_stacks_def returned_def split: option.splits sum.splits)
next
  case (UpdateNode i kw)
  then show ?thesis using assms
    by (auto simp: update_node_def Let_def same_stacks_def returned_def split: option.splits sum.splits)
next
  case (DeleteNode i)
  show ?thesis
  proof (cases "m_diagram m")
    case None
    then show ?thesis using assms DeleteNode by (simp add: delete_node_def)
  next
    case (Some d)
    show ?thesis
    proof (cases "node_index m i")
      case None
      then show ?thesis using assms DeleteNode Some by (simp add: delete_node_def)
    next
      case (Some r)
      let ?m3 = "unindex_node r (on_diagram
                           (\<lambda>d. d\<lparr> o_nodes :=
                                  filter (\<lambda>n. n_id (node_heap (save_to_history m) n) \<noteq> i) (o_nodes d) \<rparr>)
                           (save_to_history m))"
      have a: "same_stacks (save_to_history m) ?m3"
        by (simp add: same_stacks_def)
      have b: "\<And>ids. same_stacks ?m3 (fold drop_edge ids ?m3)"
        by (rule same_stacks_fold) (rule same_stacks_drop_edge)
      have c: "\<And>ids. same_stacks (save_to_history m) ((fold drop_edge ids ?m3)\<lparr> dirty := True \<rparr>)"
        using same_stacks_trans [OF a b] by (simp add: same_stacks_def)
      show ?thesis
        using assms DeleteNode Some \<open>m_diagram m = Some d\<close> c
        by (auto simp add: delete_node_def Let_def)
    qed
  qed
next
  case (AddEdge hex src tgt fr to lbl ss ts)
  then show ?thesis using assms
    by (auto simp: add_edge_def Let_def same_stacks_def returned_def
        split: option.splits sum.splits if_splits prod.splits)
next
  case (UpdateEdge i kw)
  then show ?thesis using assms
    by (auto simp: update_edge_def Let_def same_stacks_def returned_def split: option.splits sum.splits)
next
  case (DeleteEdge i)
  then show ?thesis using assms
    by (auto simp: delete_edge_def Let_def same_stacks_def split: option.splits sum.splits)
next
  case (BulkUpdateTags ids a b)
  show ?thesis
  proof (cases "m_diagram m")
    case None
    then show ?thesis using assms BulkUpdateTags by (simp add: bulk_update_tags_def returned_def)
  next
    case (Some d)
    obtain m2 updated where f: "fold (tag_one a b) ids (save_to_history m, []) = (m2, updated)"
      by (cases "fold (tag_one a b) ids (save_to_history m, [])") auto
    have "same_stacks (save_to_history m) m2"
      using same_stacks_tag_fold [of "(save_to_history m, [])" a b ids] f by simp
    then show ?thesis using assms BulkUpdateTags Some f
      by (auto simp: bulk_update_tags_def same_stacks_def split: if_splits)
  qed
next
  case (UpdateDiagramInfo nm g sh)
  then show ?thesis using assms
    by (auto simp: update_diagram_info_def Let_def same_stacks_def returned_def split: option.splits)
qed

lemma alloc_all_map: "map (alloc_all xs base h) [base..<base + length xs] = xs"
  by (rule nth_equalityI) (simp_all add: alloc_all_def)

lemma fold_index_node_keeps [simp]:
  "history (fold index_node rs m) = history m" "future (fold index_node rs m) = future m"
  "max_history (fold index_node rs m) = max_history m"
  "m_diagram (fold index_node rs m) = m_diagram m"
  "node_heap (fold index_node rs m) = node_heap m"
  "edge_heap (fold index_node rs m) = edge_heap m"
  by (induction rs arbitrary: m) simp_all

lemma fold_index_edge_keeps [simp]:
  "history (fold index_edge rs m) = history m" "future (fold index_edge rs m) = future m"
  "max_history (fold index_edge rs m) = max_history m"
  "m_diagram (fold index_edge rs m) = m_diagram m"
  "node_heap (fold index_edge rs m) = node_heap m"
  "edge_heap (fold index_edge rs m) = edge_heap m"
  by (induction rs arbitrary: m) simp_all

lemma rebuild_keeps [simp]:
  "history (rebuild_indexes m) = history m" "future (rebuild_indexes m) = future m"
  "max_history (rebuild_indexes m) = max_history m"
  "m_diagram (rebuild_indexes m) = m_diagram m"
  "node_heap (rebuild_indexes m) = node_heap m"
  "edge_heap (rebuild_indexes m) = edge_heap m"
  by (simp_all add: rebuild_indexes_def Let_def split: option.split)

lemma deref_rebuild [simp]: "deref (rebuild_indexes m) = deref m"
  by (rule ext) (simp add: deref_def)

lemma current_rebuild [simp]: "current (rebuild_indexes m) = current m"
  by (simp add: current_def)

lemma install_heaps:
  "node_heap (install dg m) = alloc_all (d_nodes dg) (next_ref m) (node_heap m)"
  "edge_heap (install dg m)
     = alloc_all (d_edges dg) (next_ref m + length (d_nodes dg)) (edge_heap m)"
  "m_diagram (install dg m)
     = Some \<lparr> o_id = d_id dg, o_name = d_name dg,
              o_nodes = [next_ref m..<next_ref m + length (d_nodes dg)],
              o_edges = [next_ref m + length (d_nodes dg)..<
                         next_ref m + length (d_nodes dg) + length (d_edges dg)],
              o_metadata = d_metadata dg \<rparr>"
  by (simp_all add: install_def Let_def)

lemma current_install: "current (install dg m) = Some dg"
proof -
  have "deref (install dg m)
     \<lparr> o_id = d_id dg, o_name = d_name dg,
       o_nodes = [next_ref m..<next_ref m + length (d_nodes dg)],
       o_edges = [next_ref m + length (d_nodes dg)..<
                  next_ref m + length (d_nodes dg) + length (d_edges dg)],
       o_metadata = d_metadata dg \<rparr>
     = \<lparr> d_id = d_id dg, d_name = d_name dg, d_nodes = d_nodes dg, d_edges = d_edges dg,
         d_metadata = d_metadata dg \<rparr>"
    unfolding deref_def install_heaps
    by (simp only: diagram_obj.select_convs alloc_all_map)
  also have "\<dots> = dg"
    by simp
  finally show ?thesis
    unfolding current_def install_heaps by (simp only: option.map)
qed

lemma install_keeps [simp]:
  "history (install dg m) = history m" "future (install dg m) = future m"
  "max_history (install dg m) = max_history m"
  by (simp_all add: install_def Let_def)

lemma deref_dirty [simp]: "deref (m\<lparr> dirty := b \<rparr>) = deref m"
  by (rule ext) (simp add: deref_def)

lemma current_dirty [simp]: "current (m\<lparr> dirty := b \<rparr>) = current m"
  by (simp add: current_def)

lemma undo_step:
  assumes "current m = Some c" and "history m = h @ [to_json_dict x]"
  shows "\<exists>U. undo env m = (Inr (Some (normal_diagram x)), U)
           \<and> current U = Some (normal_diagram x) \<and> history U = h
           \<and> future U = future m @ [to_json_dict c] \<and> max_history U = max_history m"
proof -
  obtain d where d: "m_diagram m = Some d" and c: "c = deref m d"
    using assms(1) by (auto simp: current_def)
  show ?thesis
    using assms(2)
    by (simp add: undo_def d c Let_def from_to_json current_install)
qed

lemma redo_step:
  assumes "current m = Some c" and "future m = f @ [to_json_dict x]"
  shows "\<exists>R. redo env m = (Inr (Some (normal_diagram x)), R)
           \<and> current R = Some (normal_diagram x) \<and> future R = f
           \<and> history R = history m @ [to_json_dict c] \<and> max_history R = max_history m"
proof -
  obtain d where d: "m_diagram m = Some d" and c: "c = deref m d"
    using assms(1) by (auto simp: current_def)
  show ?thesis
    using assms(2)
    by (simp add: redo_def d c Let_def from_to_json current_install)
qed

lemma undo_many:
  assumes "current m = Some c" and "history m = h @ map to_json_dict ds" and "ds \<noteq> []"
  shows "\<exists>U. undo_times env (length ds) m = Some U
           \<and> current U = Some (normal_diagram (hd ds)) \<and> history U = h
           \<and> future U = future m @ rev (map to_json_dict (tl ds @ [c]))
           \<and> max_history U = max_history m"
  using assms
proof (induction ds arbitrary: m c rule: rev_induct)
  case Nil
  then show ?case by simp
next
  case (snoc x ds)
  from snoc.prems have h: "history m = (h @ map to_json_dict ds) @ [to_json_dict x]"
    by simp
  from undo_step [OF snoc.prems(1) h, of env]
  obtain U where u: "undo env m = (Inr (Some (normal_diagram x)), U)"
    and cu: "current U = Some (normal_diagram x)" and hu: "history U = h @ map to_json_dict ds"
    and fu: "future U = future m @ [to_json_dict c]" and mu: "max_history U = max_history m"
    by blast
  show ?case
  proof (cases "ds = []")
    case True
    then show ?thesis using u cu hu fu mu by simp
  next
    case False
    from snoc.IH [OF cu hu False]
    obtain V where v: "undo_times env (length ds) U = Some V"
      and cv: "current V = Some (normal_diagram (hd ds))" and hv: "history V = h"
      and fv: "future V = future U @ rev (map to_json_dict (tl ds @ [normal_diagram x]))"
      and mv: "max_history V = max_history U"
      by blast
    have "undo_times env (length (ds @ [x])) m = Some V"
      using u v by simp
    moreover have "future V = future m @ rev (map to_json_dict (tl (ds @ [x]) @ [c]))"
      using fv fu False by (simp add: to_json_normal)
    ultimately show ?thesis
      using cv hv mv mu False by simp
  qed
qed

lemma redo_many:
  assumes "current m = Some c" and "future m = f @ rev (map to_json_dict ds)" and "ds \<noteq> []"
  shows "\<exists>R. redo_times env (length ds) m = Some R
           \<and> current R = Some (normal_diagram (last ds)) \<and> future R = f
           \<and> max_history R = max_history m"
  using assms
proof (induction ds arbitrary: m c)
  case Nil
  then show ?case by simp
next
  case (Cons x ds)
  from Cons.prems have f: "future m = (f @ rev (map to_json_dict ds)) @ [to_json_dict x]"
    by simp
  from redo_step [OF Cons.prems(1) f, of env]
  obtain R where r: "redo env m = (Inr (Some (normal_diagram x)), R)"
    and cr: "current R = Some (normal_diagram x)" and fr: "future R = f @ rev (map to_json_dict ds)"
    and mr: "max_history R = max_history m"
    by blast
  show ?case
  proof (cases "ds = []")
    case True
    then show ?thesis using r cr fr mr by simp
  next
    case False
    from Cons.IH [OF cr fr False]
    obtain S where s: "redo_times env (length ds) R = Some S"
      and cs: "current S = Some (normal_diagram (last ds))" and fs: "future S = f"
      and ms: "max_history S = max_history R"
      by blast
    have "redo_times env (length (x # ds)) m = Some S"
      using r s by simp
    then show ?thesis using cs fs ms mr False by simp
  qed
qed

lemma trim_keeps_suffix:
  assumes "int (length pre) + 1 \<le> bound"
  shows "\<exists>h1. trim bound (h0 @ pre @ [s]) = h1 @ pre @ [s]"
proof (cases "int (length (h0 @ pre @ [s])) > bound")
  case False
  then show ?thesis by (auto simp: trim_def)
next
  case True
  with assms have "h0 \<noteq> []" by auto
  then have "tl (h0 @ pre @ [s]) = tl h0 @ pre @ [s]" by simp
  with True show ?thesis by (auto simp: trim_def)
qed

lemma run_history:
  assumes "run ops m = Some m'" and "history m = h0 @ pre"
    and "int (length pre) + int (length ops) \<le> max_history m"
    and "ops \<noteq> []" and "current m = Some c"
  shows "\<exists>h ds. history m' = h @ pre @ map to_json_dict (c # ds)
           \<and> Suc (length ds) = length ops \<and> future m' = []
           \<and> max_history m' = max_history m \<and> current m' \<noteq> None"
  using assms
proof (induction ops arbitrary: m h0 pre c)
  case Nil
  then show ?case by simp
next
  case (Cons p ps)
  obtain ok m1 where ap: "apply_op p m = (ok, m1)" by (cases "apply_op p m") auto
  with Cons.prems(1) have ok: "ok" and rest: "run ps m1 = Some m'"
    by (auto split: if_splits)
  obtain d where d: "m_diagram m = Some d" and c: "c = deref m d"
    using Cons.prems(5) by (auto simp: current_def)
  from op_pushes [of p m m1] ap ok have ss: "same_stacks (save_to_history m) m1"
    by simp
  have hist: "history m1 = trim (max_history m) (h0 @ pre @ [to_json_dict c])"
    and fut: "future m1 = []" and mh: "max_history m1 = max_history m"
    and dg: "m_diagram m1 \<noteq> None"
    using ss d c Cons.prems(2) by (simp_all add: same_stacks_def save_to_history_def)
  from Cons.prems(3) have "int (length pre) + 1 \<le> max_history m" by simp
  from trim_keeps_suffix [OF this, of h0 "to_json_dict c"] hist
  obtain h1 where h1: "history m1 = h1 @ pre @ [to_json_dict c]" by auto
  show ?case
  proof (cases "ps = []")
    case True
    with rest have "m' = m1" by simp
    then show ?thesis using h1 fut mh dg True by (auto simp: current_def)
  next
    case False
    from dg obtain c1 where c1: "current m1 = Some c1" by (auto simp: current_def)
    have h1': "history m1 = h1 @ (pre @ [to_json_dict c])" using h1 by simp
    have b: "int (length (pre @ [to_json_dict c])) + int (length ps) \<le> max_history m1"
      using Cons.prems(3) mh by simp
    from Cons.IH [OF rest h1' b False c1]
    obtain h ds where "history m' = h @ (pre @ [to_json_dict c]) @ map to_json_dict (c1 # ds)"
      and "Suc (length ds) = length ps" and "future m' = []"
      and "max_history m' = max_history m1" and "current m' \<noteq> None"
      by blast
    then have "history m' = h @ pre @ map to_json_dict (c # c1 # ds)
           \<and> Suc (length (c1 # ds)) = length (p # ps) \<and> future m' = []
           \<and> max_history m' = max_history m \<and> current m' \<noteq> None"
      using mh by simp
    then show ?thesis by blast
  qed
qed

lemma clean_current: "clean m \<Longrightarrow> map_option normal_diagram (current m) = current m"
  by (cases "current m") (simp_all add: clean_def normal_diagram_same)

lemmas eval_defs = new_diagram_def DiagramManager_def install_def
      rebuild_indexes_def env0_def add_node_def save_to_history_def Node_def str_field_def
      float_field_def int_field_def str_list_field_def index_node_def index_add_def
      set_add_def on_diagram_def trim_def deref_def Let_def plain_node_def meta0_def
      generate_node_id_def

lemma store2_facts:
  "fst (add_node ''1b2c3d4e'' [(''id'', JStr ''b''), (''label'', JStr ''Beta'')] store1)
     = Inr (plain_node ''b'' ''Beta'')"
  "m_diagram store2 = Some \<lparr> o_id = ''diagram-89abcdef'', o_name = ''Demo'', o_nodes = [0, 1],
      o_edges = [], o_metadata = meta0 \<rparr>"
  "node_heap store2 0 = plain_node ''a'' ''Alpha''"
  "node_heap store2 (Suc 0) = plain_node ''b'' ''Beta''"
  "history store2 = [snap0, to_json_dict (demo [plain_node ''a'' ''Alpha''] [])]"
  "future store2 = []"
  "max_history store2 = 100"
  "node_index store2 = [''a'' \<mapsto> 0, ''b'' \<mapsto> 1]"
  "edge_index store2 = Map.empty"
  "next_ref store2 = 2"
  by (simp_all add: store2_def store1_def store0_def eval_defs snap0_def demo_def)


lemma current_store2: "current store2 = Some (demo [plain_node ''a'' ''Alpha'', plain_node ''b'' ''Beta''] [])"
  by (simp add: current_def deref_def store2_facts demo_def)

lemma edge3_built:
  "Edge ''4e5f6a7b'' [(''source'', JStr ''a''), (''target'', JStr ''b''), (''label'', JStr []),
      side_arg ''source_side'' (Some []), side_arg ''target_side'' None] = Inr edge3"
  by (simp add: Edge_def Let_def convert_legacy_fields_def move_key_def str_field_def
      required_str_field_def optional_str_field_def float_field_def plain_edge_def edge3_def
      side_arg_def generate_edge_id_def)

lemma store3_facts:
  "fst (add_edge ''4e5f6a7b'' (Some ''a'') (Some ''b'') None None [] (Some []) None store2)
     = Inr edge3"
  "m_diagram store3 = Some \<lparr> o_id = ''diagram-89abcdef'', o_name = ''Demo'', o_nodes = [0, 1],
      o_edges = [2], o_metadata = meta0 \<rparr>"
  "node_heap store3 = node_heap store2"
  "edge_heap store3 2 = edge3"
  "history store3 = history store2
      @ [to_json_dict (demo [plain_node ''a'' ''Alpha'', plain_node ''b'' ''Beta''] [])]"
  "future store3 = []"
  by (simp_all add: store3_def add_edge_def py_or_def truthy_def store2_facts edge3_built
      save_to_history_def Let_def on_diagram_def trim_def deref_def demo_def)

lemma current_store3:
  "current store3 = Some (demo [plain_node ''a'' ''Alpha'', plain_node ''b'' ''Beta''] [edge3])"
  by (simp add: current_def deref_def store3_facts store2_facts demo_def)

lemma missing_labels_kind:
  "list_all (\<lambda>i. severity i = WARNING \<and> message i = ''Node has default or empty label'')
     (missing_labels ns)"
  by (induction ns) (simp_all add: missing_labels_def)

lemma missing_labels_none:
  "list_all (\<lambda>n. \<not> label_missing (n_label n)) ns \<Longrightarrow> missing_labels ns = []"
  by (induction ns) (simp_all add: missing_labels_def)

subsection \<open>Validator\<close>

text \<open>
  Claim C8.  Let \<open>a\<close>, \<open>b\<close>, \<open>c\<close> be nodes with distinct ids, in any order, and let the edges
  be a self-loop \<open>e1\<close> on \<open>a\<close> and two edges \<open>e2\<close>, \<open>e3\<close> from \<open>a\<close> to \<open>c\<close>, in any order
  in which \<open>e2\<close> comes before \<open>e3\<close>.  Then \<^const>\<open>validate_diagram\<close> returns the orphan
  warning that names \<open>b\<close> alone, the label warnings, the self-loop warning for \<open>e1\<close> and
  the duplicate warning for \<open>e3\<close> (the second edge from \<open>a\<close> to \<open>c\<close>), and nothing else; no
  issue is an error.  The label warnings are all of the kind "default or empty label",
  and there is none when no label is empty, blank or \<^verbatim>\<open>New Node\<close>: the result is then
  exactly the three warnings.
\<close>

theorem validator_selfloop_orphan_duplicate:
  assumes ids: "n_id a \<noteq> n_id b" "n_id a \<noteq> n_id c" "n_id b \<noteq> n_id c"
    and e1: "e_source e1 = n_id a" "e_target e1 = n_id a"
    and e2: "e_source e2 = n_id a" "e_target e2 = n_id c"
    and e3: "e_source e3 = n_id a" "e_target e3 = n_id c"
    and ns: "ns \<in> {[a, b, c], [a, c, b], [b, a, c], [b, c, a], [c, a, b], [c, b, a]}"
    and es: "es \<in> {[e1, e2, e3], [e2, e1, e3], [e2, e3, e1]}"
  shows "(validate_diagram \<lparr> d_id = i, d_name = nm, d_nodes = ns, d_edges = es, d_metadata = md \<rparr>
     = \<lparr> severity = WARNING,
         message = ''Orphan nodes (no connections): '' @ n_label b @ '' ('' @ n_id b @ '')'',
         issue_node_id = None, issue_edge_id = None \<rparr>
       # missing_labels ns
       @ [\<lparr> severity = WARNING, message = ''Self-referencing edge (node points to itself)'',
            issue_node_id = Some (n_id a), issue_edge_id = Some (e_id e1) \<rparr>,
          \<lparr> severity = WARNING, message = ''Duplicate edge from '' @ n_id a @ '' to '' @ n_id c,
            issue_node_id = None, issue_edge_id = Some (e_id e3) \<rparr>])
       \<and> filter (\<lambda>x. severity x = ERROR)
             (validate_diagram
                \<lparr> d_id = i, d_name = nm, d_nodes = ns, d_edges = es, d_metadata = md \<rparr>) = []
       \<and> list_all (\<lambda>x. severity x = WARNING \<and> message x = ''Node has default or empty label'')
             (missing_labels ns)
       \<and> (\<not> label_missing (n_label a) \<and> \<not> label_missing (n_label b)
            \<and> \<not> label_missing (n_label c) \<longrightarrow> missing_labels ns = [])"
proof -
  have ne: "ns \<noteq> []" using ns by auto
  have nids: "set (map n_id ns) = {n_id a, n_id b, n_id c}"
    using ns by auto
  have conn: "set (map e_source es) \<union> set (map e_target es) = {n_id a, n_id c}"
    using es e1 e2 e3 by auto
  have o: "{n_id a, n_id b, n_id c} - {n_id a, n_id c} = {n_id b}"
    using ids by auto
  have orph: "filter (\<lambda>n. n_id n \<in> {n_id b}) ns = [b]"
    using ns ids by auto
  have refs: "concat (map (\<lambda>e.
             (if e_source e \<notin> {n_id a, n_id b, n_id c}
              then [\<lparr> severity = ERROR,
                      message = ''Edge references non-existent source node: '' @ e_source e,
                      issue_node_id = None, issue_edge_id = Some (e_id e) \<rparr>]
              else [])
             @ (if e_target e \<notin> {n_id a, n_id b, n_id c}
              then [\<lparr> severity = ERROR,
                      message = ''Edge references non-existent target node: '' @ e_target e,
                      issue_node_id = None, issue_edge_id = Some (e_id e) \<rparr>]
              else [])) es) = []"
    using es e1 e2 e3 by auto
  have self: "concat (map (\<lambda>e.
             if e_source e = e_target e
             then [\<lparr> severity = WARNING,
                     message = ''Self-referencing edge (node points to itself)'',
                     issue_node_id = Some (e_source e), issue_edge_id = Some (e_id e) \<rparr>]
             else []) es)
      = [\<lparr> severity = WARNING, message = ''Self-referencing edge (node points to itself)'',
            issue_node_id = Some (n_id a), issue_edge_id = Some (e_id e1) \<rparr>]"
    using es e1 e2 e3 ids by auto
  have dup: "duplicate_edges es {}
      = [\<lparr> severity = WARNING, message = ''Duplicate edge from '' @ n_id a @ '' to '' @ n_id c,
            issue_node_id = None, issue_edge_id = Some (e_id e3) \<rparr>]"
    using es e1 e2 e3 ids by auto
  have "validate_diagram \<lparr> d_id = i, d_name = nm, d_nodes = ns, d_edges = es, d_metadata = md \<rparr>
      = (if {n_id b} \<noteq> {}
         then [\<lparr> severity = WARNING,
                 message = ''Orphan nodes (no connections): ''
                   @ join '', '' (map (\<lambda>n. n_label n @ '' ('' @ n_id n @ '')'') [b]),
                 issue_node_id = None, issue_edge_id = None \<rparr>]
         else [])
        @ missing_labels ns @ []
        @ [\<lparr> severity = WARNING, message = ''Self-referencing edge (node points to itself)'',
            issue_node_id = Some (n_id a), issue_edge_id = Some (e_id e1) \<rparr>]
        @ [\<lparr> severity = WARNING, message = ''Duplicate edge from '' @ n_id a @ '' to '' @ n_id c,
            issue_node_id = None, issue_edge_id = Some (e_id e3) \<rparr>]"
    unfolding validate_diagram_def Let_def
    by (simp only: diagram.select_convs nids conn o orph refs self dup ne if_False)
  then have main: "validate_diagram
        \<lparr> d_id = i, d_name = nm, d_nodes = ns, d_edges = es, d_metadata = md \<rparr>
     = \<lparr> severity = WARNING,
         message = ''Orphan nodes (no connections): '' @ n_label b @ '' ('' @ n_id b @ '')'',
         issue_node_id = None, issue_edge_id = None \<rparr>
       # missing_labels ns
       @ [\<lparr> severity = WARNING, message = ''Self-referencing edge (node points to itself)'',
            issue_node_id = Some (n_id a), issue_edge_id = Some (e_id e1) \<rparr>,
          \<lparr> severity = WARNING, message = ''Duplicate edge from '' @ n_id a @ '' to '' @ n_id c,
            issue_node_id = None, issue_edge_id = Some (e_id e3) \<rparr>]"
    by simp
  have kind: "list_all (\<lambda>x. severity x = WARNING \<and> message x = ''Node has default or empty label'')
      (missing_labels ns)"
    by (rule missing_labels_kind)
  then have noerr: "filter (\<lambda>x. severity x = ERROR) (missing_labels ns) = []"
    by (simp add: list_all_iff filter_empty_conv)
  have none: "\<not> label_missing (n_label a) \<and> \<not> label_missing (n_label b)
      \<and> \<not> label_missing (n_label c) \<longrightarrow> missing_labels ns = []"
    using ns by (auto intro!: missing_labels_none)
  show ?thesis
    unfolding main using kind noerr none by simp
qed

theorem validator_selfloop_orphan_duplicate_witness:
  "validate_diagram
     \<lparr> d_id = ''d1'', d_name = ''Rooms'',
       d_nodes = [plain_node ''A'' ''Alpha'', plain_node ''B'' ''Beta'',
                  plain_node ''C'' ''Gamma''],
       d_edges = [plain_edge ''e1'' ''A'' ''A'', plain_edge ''e2'' ''A'' ''C'',
                  plain_edge ''e3'' ''A'' ''C''],
       d_metadata = meta0 \<rparr>
   = [\<lparr> severity = WARNING, message = ''Orphan nodes (no connections): Beta (B)'',
        issue_node_id = None, issue_edge_id = None \<rparr>,
      \<lparr> severity = WARNING, message = ''Self-referencing edge (node points to itself)'',
        issue_node_id = Some ''A'', issue_edge_id = Some ''e1'' \<rparr>,
      \<lparr> severity = WARNING, message = ''Duplicate edge from A to C'',
        issue_node_id = None, issue_edge_id = Some ''e3'' \<rparr>]"
proof -
  let ?a = "plain_node ''A'' ''Alpha''" and ?b = "plain_node ''B'' ''Beta''"
    and ?c = "plain_node ''C'' ''Gamma''"
  let ?e1 = "plain_edge ''e1'' ''A'' ''A''" and ?e2 = "plain_edge ''e2'' ''A'' ''C''"
    and ?e3 = "plain_edge ''e3'' ''A'' ''C''"
  have ids: "n_id ?a \<noteq> n_id ?b" "n_id ?a \<noteq> n_id ?c" "n_id ?b \<noteq> n_id ?c"
    by (simp_all add: plain_node_def)
  have e1: "e_source ?e1 = n_id ?a" "e_target ?e1 = n_id ?a"
    by (simp_all add: plain_node_def plain_edge_def)
  have e2: "e_source ?e2 = n_id ?a" "e_target ?e2 = n_id ?c"
    by (simp_all add: plain_node_def plain_edge_def)
  have e3: "e_source ?e3 = n_id ?a" "e_target ?e3 = n_id ?c"
    by (simp_all add: plain_node_def plain_edge_def)
  have ns: "[?a, ?b, ?c] \<in> {[?a, ?b, ?c], [?a, ?c, ?b], [?b, ?a, ?c], [?b, ?c, ?a],
      [?c, ?a, ?b], [?c, ?b, ?a]}"
    by simp
  have es: "[?e1, ?e2, ?e3] \<in> {[?e1, ?e2, ?e3], [?e2, ?e1, ?e3], [?e2, ?e3, ?e1]}"
    by simp
  have labels: "\<not> label_missing (n_label ?a) \<and> \<not> label_missing (n_label ?b)
      \<and> \<not> label_missing (n_label ?c)"
    by (simp add: plain_node_def label_missing_def strip_def isspace_def)
  show ?thesis
    using validator_selfloop_orphan_duplicate [OF ids e1 e2 e3 ns es, of "''d1''" "''Rooms''" meta0]
      labels
    by (simp add: plain_node_def plain_edge_def)
qed

subsection \<open>Cycle detection\<close>

lemma fold_unchanged: "(\<And>x s. x \<in> set xs \<Longrightarrow> f x s = s) \<Longrightarrow> fold f xs s = s"
  by (induction xs arbitrary: s) simp_all

lemma adjacency_edge: "n \<in> set (adjacency es v) \<Longrightarrow> (v, n) \<in> edge_rel es"
  by (auto simp: adjacency_def edge_rel_def)

lemma dfs_acyclic:
  "acyclic (edge_rel es) \<Longrightarrow> (start, cur) \<in> (edge_rel es)\<^sup>* \<Longrightarrow>
     dfs es start cur path visited cycles = cycles"
proof (induction es start cur path visited cycles rule: dfs.induct)
  case (1 edges start cur path visited cycles)
  note ac = "1.prems"(1) and reach0 = "1.prems"(2)
  have step: "(if neighbor = start \<and> length path > 1 then cyc @ [path @ [start]]
        else if neighbor \<notin> visited
          then dfs edges start neighbor (path @ [neighbor]) (insert neighbor visited) cyc
          else cyc) = cyc"
    if mem: "neighbor \<in> set (adjacency edges cur)" for neighbor cyc
  proof -
    from mem have e: "(cur, neighbor) \<in> edge_rel edges" by (rule adjacency_edge)
    with reach0 have reach: "(start, neighbor) \<in> (edge_rel edges)\<^sup>*" by auto
    have ns: "neighbor \<noteq> start"
    proof
      assume "neighbor = start"
      with e reach0 have "(start, start) \<in> (edge_rel edges)\<^sup>+" by auto
      with ac show False by (auto simp: acyclic_def)
    qed
    show ?thesis
    proof (cases "neighbor \<in> visited")
      case True
      with ns show ?thesis by simp
    next
      case False
      have "dfs edges start neighbor (path @ [neighbor]) (insert neighbor visited) cyc = cyc"
        using ns by (intro "1.IH" [OF mem _ False ac reach]) simp
      with ns False show ?thesis by simp
    qed
  qed
  show ?case
    by (subst dfs.simps) (rule fold_unchanged, rule step)
qed

lemma raw_cycles_acyclic:
  assumes "acyclic (edge_rel (d_edges dg))"
  shows "raw_cycles dg = []"
proof -
  have "\<And>vg. snd (fold (visit_node (d_edges dg)) ns (vg, [])) = []" for ns
  proof (induction ns)
    case Nil
    show ?case by simp
  next
    case (Cons n ns)
    have "dfs (d_edges dg) (n_id n) (n_id n) [n_id n] {n_id n} [] = []"
      using assms by (intro dfs_acyclic) simp_all
    then show ?case using Cons by (simp add: visit_node_def)
  qed
  then show ?thesis by (simp add: raw_cycles_def)
qed

lemma keep_unique_invariant:
  assumes "seen = (\<lambda>cy. set (butlast cy)) ` set uq" and "distinct (map (\<lambda>cy. set (butlast cy)) uq)"
  shows "fst (fold keep_unique cs (seen, uq)) = (\<lambda>cy. set (butlast cy)) ` set (snd (fold keep_unique cs (seen, uq)))
       \<and> distinct (map (\<lambda>cy. set (butlast cy)) (snd (fold keep_unique cs (seen, uq))))
       \<and> set (snd (fold keep_unique cs (seen, uq))) \<subseteq> set uq \<union> set cs
       \<and> (\<lambda>cy. set (butlast cy)) ` set (snd (fold keep_unique cs (seen, uq)))
           = (\<lambda>cy. set (butlast cy)) ` (set uq \<union> set cs)"
  using assms
proof (induction cs arbitrary: seen uq)
  case Nil
  then show ?case by simp
next
  case (Cons c cs)
  show ?case
  proof (cases "set (butlast c) \<in> seen")
    case True
    then have k: "keep_unique c (seen, uq) = (seen, uq)"
      by (simp add: keep_unique_def)
    from Cons.IH [OF Cons.prems] True Cons.prems(1) show ?thesis
      unfolding fold_simps k by auto
  next
    case False
    then have k: "keep_unique c (seen, uq) = (insert (set (butlast c)) seen, uq @ [c])"
      by (simp add: keep_unique_def)
    have a: "insert (set (butlast c)) seen = (\<lambda>cy. set (butlast cy)) ` set (uq @ [c])"
      using Cons.prems(1) by auto
    have b: "distinct (map (\<lambda>cy. set (butlast cy)) (uq @ [c]))"
      using Cons.prems False by auto
    from Cons.IH [OF a b] show ?thesis
      unfolding fold_simps k by auto
  qed
qed

lemma unique_cycles_props:
  "distinct (map (\<lambda>cy. set (butlast cy)) (unique_cycles cs))
   \<and> set (unique_cycles cs) \<subseteq> set cs
   \<and> (\<lambda>cy. set (butlast cy)) ` set (unique_cycles cs) = (\<lambda>cy. set (butlast cy)) ` set cs"
  using keep_unique_invariant [of "{}" "[]" cs] by (simp add: unique_cycles_def)

lemma dfs_single:
  "adjacency es v = [n] \<Longrightarrow>
     dfs es start v path visited cycles =
       (if n = start \<and> length path > 1 then cycles @ [path @ [start]]
        else if n \<notin> visited then dfs es start n (path @ [n]) (insert n visited) cycles
        else cycles)"
  by (subst dfs.simps) simp

lemma triangle_adjacency:
  assumes "a \<noteq> b" "a \<noteq> c" "b \<noteq> c"
    and "e_source e1 = a" "e_target e1 = b"
    and "e_source e2 = b" "e_target e2 = c"
    and "e_source e3 = c" "e_target e3 = a"
    and "es \<in> {[e1, e2, e3], [e1, e3, e2], [e2, e1, e3], [e2, e3, e1], [e3, e1, e2], [e3, e2, e1]}"
  shows "adjacency es a = [b]" "adjacency es b = [c]" "adjacency es c = [a]"
  using assms by (auto simp: adjacency_def)

lemma triangle_dfs:
  assumes "a \<noteq> b" "a \<noteq> c" "b \<noteq> c"
    and "adjacency es a = [b]" "adjacency es b = [c]" "adjacency es c = [a]"
  shows "dfs es a a [a] {a} cycles = cycles @ [[a, b, c, a]]"
  using assms by (simp add: dfs_single)

lemma triangle_raw:
  assumes "a \<noteq> b" "a \<noteq> c" "b \<noteq> c"
    and "adjacency es a = [b]" "adjacency es b = [c]" "adjacency es c = [a]"
    and "n_id na = a" "n_id nb = b" "n_id nc = c"
  shows "snd (fold (visit_node es) [na, nb, nc] ({}, [])) = [[a, b, c, a], [b, c, a, b], [c, a, b, c]]"
    and "snd (fold (visit_node es) [na, nc, nb] ({}, [])) = [[a, b, c, a], [c, a, b, c], [b, c, a, b]]"
proof -
  have A: "\<And>cy. dfs es a a [a] {a} cy = cy @ [[a, b, c, a]]"
    using assms by (intro triangle_dfs) auto
  have B: "\<And>cy. dfs es b b [b] {b} cy = cy @ [[b, c, a, b]]"
    using assms by (intro triangle_dfs) auto
  have C: "\<And>cy. dfs es c c [c] {c} cy = cy @ [[c, a, b, c]]"
    using assms by (intro triangle_dfs) auto
  show "snd (fold (visit_node es) [na, nb, nc] ({}, [])) = [[a, b, c, a], [b, c, a, b], [c, a, b, c]]"
    using assms(1-3) by (simp add: visit_node_def assms(7-9) A B C)
  show "snd (fold (visit_node es) [na, nc, nb] ({}, [])) = [[a, b, c, a], [c, a, b, c], [b, c, a, b]]"
    using assms(1-3) by (simp add: visit_node_def assms(7-9) A B C)
qed

lemma triangle_unique:
  assumes "a \<noteq> b" "a \<noteq> c" "b \<noteq> c"
  shows "unique_cycles [[a, b, c, a], [b, c, a, b], [c, a, b, c]] = [[a, b, c, a]]"
    and "unique_cycles [[a, b, c, a], [c, a, b, c], [b, c, a, b]] = [[a, b, c, a]]"
proof -
  have s: "{b, c, a} = {a, b, c}" "{c, a, b} = {a, b, c}" by auto
  show "unique_cycles [[a, b, c, a], [b, c, a, b], [c, a, b, c]] = [[a, b, c, a]]"
    by (simp add: unique_cycles_def keep_unique_def s)
  show "unique_cycles [[a, b, c, a], [c, a, b, c], [b, c, a, b]] = [[a, b, c, a]]"
    by (simp add: unique_cycles_def keep_unique_def s)
qed

text \<open>
  Claim C7.  (1) For three nodes with distinct ids \<open>a\<close>, \<open>b\<close>, \<open>c\<close> and the edges
  \<open>a \<rightarrow> b\<close>, \<open>b \<rightarrow> c\<close>, \<open>c \<rightarrow> a\<close> in any order, \<^const>\<open>find_cycles\<close> returns exactly one
  cycle, \<open>[a, b, c, a]\<close>, whose member nodes are \<open>a\<close>, \<open>b\<close>, \<open>c\<close>; \<open>a\<close> names the node that
  comes first in the node list, the other two may follow in either order.  (2) For every
  diagram whose edges form an acyclic directed graph it returns the empty list.
  (3) The result is the list of found cycles with duplicates removed by node set
  (\<^const>\<open>unique_cycles\<close>): no two cycles kept have the same set of member nodes, every
  cycle kept was found, and every node set found is kept.
\<close>

theorem find_cycles_triangle_acyclic_unique:
  "(a \<noteq> b \<and> a \<noteq> c \<and> b \<noteq> c \<and> n_id na = a \<and> n_id nb = b \<and> n_id nc = c
      \<and> e_source e1 = a \<and> e_target e1 = b \<and> e_source e2 = b \<and> e_target e2 = c
      \<and> e_source e3 = c \<and> e_target e3 = a
      \<and> ns \<in> {[na, nb, nc], [na, nc, nb]}
      \<and> es \<in> {[e1, e2, e3], [e1, e3, e2], [e2, e1, e3], [e2, e3, e1], [e3, e1, e2],
               [e3, e2, e1]}
      \<longrightarrow> find_cycles \<lparr> d_id = i, d_name = nm, d_nodes = ns, d_edges = es, d_metadata = md \<rparr>
            = [[a, b, c, a]])
   \<and> (acyclic (edge_rel (d_edges dg)) \<longrightarrow> find_cycles dg = [])
   \<and> find_cycles dg = unique_cycles (raw_cycles dg)
   \<and> distinct (map (\<lambda>cy. set (butlast cy)) (unique_cycles cs))
   \<and> set (unique_cycles cs) \<subseteq> set cs
   \<and> (\<lambda>cy. set (butlast cy)) ` set (unique_cycles cs) = (\<lambda>cy. set (butlast cy)) ` set cs"
proof -
  have tri: "find_cycles \<lparr> d_id = i, d_name = nm, d_nodes = ns, d_edges = es, d_metadata = md \<rparr>
            = [[a, b, c, a]]"
    if d: "a \<noteq> b" "a \<noteq> c" "b \<noteq> c" and n: "n_id na = a" "n_id nb = b" "n_id nc = c"
      and e: "e_source e1 = a" "e_target e1 = b" "e_source e2 = b" "e_target e2 = c"
        "e_source e3 = c" "e_target e3 = a"
      and ns: "ns \<in> {[na, nb, nc], [na, nc, nb]}"
      and es: "es \<in> {[e1, e2, e3], [e1, e3, e2], [e2, e1, e3], [e2, e3, e1], [e3, e1, e2],
               [e3, e2, e1]}"
  proof -
    note adj = triangle_adjacency [OF d e es]
    note raw = triangle_raw [OF d adj n]
    from ns have "ns = [na, nb, nc] \<or> ns = [na, nc, nb]" by simp
    then show ?thesis
    proof
      assume "ns = [na, nb, nc]"
      then show ?thesis
        by (simp only: find_cycles_def raw_cycles_def diagram.select_convs raw
            triangle_unique [OF d])
    next
      assume "ns = [na, nc, nb]"
      then show ?thesis
        by (simp only: find_cycles_def raw_cycles_def diagram.select_convs raw
            triangle_unique [OF d])
    qed
  qed
  have acy: "find_cycles dg = []" if "acyclic (edge_rel (d_edges dg))"
    using raw_cycles_acyclic [OF that] by (simp add: find_cycles_def unique_cycles_def)
  show ?thesis
    using tri acy unique_cycles_props [of cs] by (auto simp: find_cycles_def)
qed

theorem find_cycles_triangle_acyclic_unique_witness:
  "find_cycles
     \<lparr> d_id = ''d1'', d_name = ''Rooms'',
       d_nodes = [plain_node ''A'' ''Alpha'', plain_node ''B'' ''Beta'',
                  plain_node ''C'' ''Gamma''],
       d_edges = [plain_edge ''e1'' ''A'' ''B'', plain_edge ''e2'' ''B'' ''C'',
                  plain_edge ''e3'' ''C'' ''A''],
       d_metadata = meta0 \<rparr>
     = [[''A'', ''B'', ''C'', ''A'']]
   \<and> find_cycles
     \<lparr> d_id = ''d1'', d_name = ''Rooms'',
       d_nodes = [plain_node ''A'' ''Alpha'', plain_node ''B'' ''Beta'',
                  plain_node ''C'' ''Gamma''],
       d_edges = [plain_edge ''e1'' ''A'' ''B'', plain_edge ''e2'' ''B'' ''C''],
       d_metadata = meta0 \<rparr>
     = []"
proof -
  let ?na = "plain_node ''A'' ''Alpha''" and ?nb = "plain_node ''B'' ''Beta''"
    and ?nc = "plain_node ''C'' ''Gamma''"
  let ?e1 = "plain_edge ''e1'' ''A'' ''B''" and ?e2 = "plain_edge ''e2'' ''B'' ''C''"
    and ?e3 = "plain_edge ''e3'' ''C'' ''A''"
  let ?chain = "\<lparr> d_id = ''d1'', d_name = ''Rooms'', d_nodes = [?na, ?nb, ?nc],
      d_edges = [?e1, ?e2], d_metadata = meta0 \<rparr>"
  have hyp: "''A'' \<noteq> ''B'' \<and> ''A'' \<noteq> ''C'' \<and> ''B'' \<noteq> ''C''
      \<and> n_id ?na = ''A'' \<and> n_id ?nb = ''B'' \<and> n_id ?nc = ''C''
      \<and> e_source ?e1 = ''A'' \<and> e_target ?e1 = ''B'' \<and> e_source ?e2 = ''B''
      \<and> e_target ?e2 = ''C'' \<and> e_source ?e3 = ''C'' \<and> e_target ?e3 = ''A''
      \<and> [?na, ?nb, ?nc] \<in> {[?na, ?nb, ?nc], [?na, ?nc, ?nb]}
      \<and> [?e1, ?e2, ?e3] \<in> {[?e1, ?e2, ?e3], [?e1, ?e3, ?e2], [?e2, ?e1, ?e3],
           [?e2, ?e3, ?e1], [?e3, ?e1, ?e2], [?e3, ?e2, ?e1]}"
    by (simp add: plain_node_def plain_edge_def)
  have rel: "edge_rel (d_edges ?chain) = {(''A'', ''B''), (''B'', ''C'')}"
    by (simp add: edge_rel_def plain_edge_def)
  have "acyclic ({} :: (string \<times> string) set)"
    by (simp add: acyclic_def)
  then have "acyclic {(''A'', ''B''), (''B'', ''C'')}"
    by (auto elim: converse_rtranclE)
  then have ac: "acyclic (edge_rel (d_edges ?chain))"
    by (simp only: rel)
  have one: "find_cycles \<lparr> d_id = ''d1'', d_name = ''Rooms'', d_nodes = [?na, ?nb, ?nc],
      d_edges = [?e1, ?e2, ?e3], d_metadata = meta0 \<rparr> = [[''A'', ''B'', ''C'', ''A'']]"
    using find_cycles_triangle_acyclic_unique [of "''A''" "''B''" "''C''" ?na ?nb ?nc ?e1 ?e2 ?e3
        "[?na, ?nb, ?nc]" "[?e1, ?e2, ?e3]" "''d1''" "''Rooms''" meta0 ?chain "[]"] hyp
    by blast
  have two: "find_cycles ?chain = []"
    using find_cycles_triangle_acyclic_unique [of "''A''" "''B''" "''C''" ?na ?nb ?nc ?e1 ?e2 ?e3
        "[?na, ?nb, ?nc]" "[?e1, ?e2, ?e3]" "''d1''" "''Rooms''" meta0 ?chain "[]"] ac
    by blast
  show ?thesis
    using one two by simp
qed

subsection \<open>Cascade delete\<close>















text \<open>
  The indexes that \<^verbatim>\<open>_rebuild_indexes\<close> builds agree with the diagram: every node id of
  the list is in the node index under a node with that id, the incident-edge index of an id
  is the set of ids of the edges with that source or target, and, when the edge ids are
  distinct, every edge is the entry of the edge index under its id.
\<close>

lemma index_set_add:
  "index_set (index_add k v idx) k'
     = (if k' = k then insert v (index_set idx k) else index_set idx k')"
  by (cases "idx k") (auto simp: index_set_def index_add_def set_add_def)

lemma index_edge_frame:
  "edge_heap (index_edge r m) = edge_heap m" "node_heap (index_edge r m) = node_heap m"
  "m_diagram (index_edge r m) = m_diagram m" "node_index (index_edge r m) = node_index m"
  by (simp_all add: index_edge_def Let_def)

lemma fold_index_edge_frame:
  "edge_heap (fold index_edge rs m) = edge_heap m"
  "node_heap (fold index_edge rs m) = node_heap m"
  "m_diagram (fold index_edge rs m) = m_diagram m"
  "node_index (fold index_edge rs m) = node_index m"
  by (induction rs arbitrary: m) (simp_all add: index_edge_frame)

lemma index_node_frame:
  "edge_heap (index_node r m) = edge_heap m" "node_heap (index_node r m) = node_heap m"
  "m_diagram (index_node r m) = m_diagram m" "edge_index (index_node r m) = edge_index m"
  "edges_by_node (index_node r m) = edges_by_node m"
  by (simp_all add: index_node_def Let_def)

lemma fold_index_node_frame:
  "edge_heap (fold index_node rs m) = edge_heap m"
  "node_heap (fold index_node rs m) = node_heap m"
  "m_diagram (fold index_node rs m) = m_diagram m"
  "edge_index (fold index_node rs m) = edge_index m"
  "edges_by_node (fold index_node rs m) = edges_by_node m"
  by (induction rs arbitrary: m) (simp_all add: index_node_frame)

lemma index_edge_ebn:
  "index_set (edges_by_node (index_edge r m)) v
     = index_set (edges_by_node m) v
       \<union> (if e_source (edge_heap m r) = v \<or> e_target (edge_heap m r) = v
          then {e_id (edge_heap m r)} else {})"
  by (auto simp: index_edge_def Let_def index_set_add)

lemma fold_index_edge_ebn:
  "index_set (edges_by_node (fold index_edge rs m)) v
     = index_set (edges_by_node m) v
       \<union> set (map e_id (filter (\<lambda>e. e_source e = v \<or> e_target e = v) (map (edge_heap m) rs)))"
proof (induction rs arbitrary: m)
  case Nil
  show ?case by simp
next
  case (Cons r rs)
  have "index_set (edges_by_node (fold index_edge (r # rs) m)) v
      = index_set (edges_by_node (index_edge r m)) v
       \<union> set (map e_id (filter (\<lambda>e. e_source e = v \<or> e_target e = v)
            (map (edge_heap (index_edge r m)) rs)))"
    using Cons.IH [of "index_edge r m"] by simp
  then show ?case
    by (auto simp: index_edge_frame index_edge_ebn)
qed

lemma fold_index_edge_other:
  "k \<notin> set (map (\<lambda>r. e_id (edge_heap m r)) rs)
     \<Longrightarrow> edge_index (fold index_edge rs m) k = edge_index m k"
proof (induction rs arbitrary: m)
  case Nil
  show ?case by simp
next
  case (Cons r rs)
  have "edge_index (fold index_edge rs (index_edge r m)) k = edge_index (index_edge r m) k"
    using Cons.prems by (intro Cons.IH) (simp add: index_edge_frame)
  also have "\<dots> = edge_index m k"
    using Cons.prems by (simp add: index_edge_def Let_def)
  finally show ?case by simp
qed

lemma fold_index_edge_idx:
  assumes "distinct (map (\<lambda>r. e_id (edge_heap m r)) rs)" and "r \<in> set rs"
  shows "edge_index (fold index_edge rs m) (e_id (edge_heap m r)) = Some r"
  using assms
proof (induction rs arbitrary: m)
  case Nil
  then show ?case by simp
next
  case (Cons a rs)
  let ?m1 = "index_edge a m"
  have h: "edge_heap ?m1 = edge_heap m" by (rule index_edge_frame)
  show ?case
  proof (cases "r = a")
    case True
    have "e_id (edge_heap ?m1 a) \<notin> set (map (\<lambda>r. e_id (edge_heap ?m1 r)) rs)"
      using Cons.prems(1) by (simp add: h)
    then have "edge_index (fold index_edge rs ?m1) (e_id (edge_heap ?m1 a))
        = edge_index ?m1 (e_id (edge_heap ?m1 a))"
      by (rule fold_index_edge_other)
    also have "\<dots> = Some a"
      by (simp add: index_edge_def Let_def)
    finally show ?thesis using True by (simp add: h)
  next
    case False
    with Cons.prems have "r \<in> set rs" "distinct (map (\<lambda>r. e_id (edge_heap ?m1 r)) rs)"
      by (simp_all add: h)
    from Cons.IH [OF this(2) this(1)] show ?thesis by (simp add: h)
  qed
qed

lemma fold_index_node_idx:
  "x \<in> set (map (\<lambda>r. n_id (node_heap m r)) rs)
     \<Longrightarrow> \<exists>r. node_index (fold index_node rs m) x = Some r \<and> n_id (node_heap m r) = x"
proof (induction rs rule: rev_induct)
  case Nil
  then show ?case by simp
next
  case (snoc a rs)
  let ?m1 = "fold index_node rs m"
  have h: "node_heap ?m1 = node_heap m" by (rule fold_index_node_frame)
  have st: "node_index (fold index_node (rs @ [a]) m)
      = (node_index ?m1)(n_id (node_heap m a) \<mapsto> a)"
    by (simp add: index_node_def Let_def h)
  show ?case
  proof (cases "n_id (node_heap m a) = x")
    case True
    then show ?thesis unfolding st by auto
  next
    case False
    with snoc.prems have "x \<in> set (map (\<lambda>r. n_id (node_heap m r)) rs)" by auto
    from snoc.IH [OF this] False show ?thesis unfolding st by auto
  qed
qed

lemma rebuild_indexes_agree:
  assumes dg: "m_diagram m = Some d"
  shows "m_diagram (rebuild_indexes m) = Some d"
    and "deref (rebuild_indexes m) d = deref m d"
    and "x \<in> set (map n_id (d_nodes (deref m d)))
      \<Longrightarrow> \<exists>r. node_index (rebuild_indexes m) x = Some r
             \<and> n_id (node_heap (rebuild_indexes m) r) = x"
    and "distinct (map e_id (d_edges (deref m d)))
      \<Longrightarrow> list_all (\<lambda>er. edge_index (rebuild_indexes m)
                          (e_id (edge_heap (rebuild_indexes m) er)) = Some er) (o_edges d)"
    and "index_set (edges_by_node (rebuild_indexes m)) x
      = set (map e_id (filter (\<lambda>e. e_source e = x \<or> e_target e = x)
          (d_edges (deref (rebuild_indexes m) d))))"
proof -
  let ?c = "m\<lparr> node_index := Map.empty, edge_index := Map.empty,
                       tag_index := Map.empty, type_index := Map.empty,
                       edges_by_node := Map.empty \<rparr>"
  let ?n = "fold index_node (o_nodes d) ?c"
  have rb: "rebuild_indexes m = fold index_edge (o_edges d) ?n"
    using dg by (simp add: rebuild_indexes_def Let_def)
  have c0: "node_heap ?c = node_heap m" "edge_heap ?c = edge_heap m"
    "m_diagram ?c = m_diagram m" "edges_by_node ?c = Map.empty"
    by simp_all
  have hn: "node_heap ?n = node_heap m" "edge_heap ?n = edge_heap m"
    "m_diagram ?n = m_diagram m" "edges_by_node ?n = Map.empty"
    by (simp_all only: fold_index_node_frame c0)
  have h: "node_heap (rebuild_indexes m) = node_heap m"
    "edge_heap (rebuild_indexes m) = edge_heap m"
    unfolding rb by (simp_all only: fold_index_edge_frame hn)
  show "m_diagram (rebuild_indexes m) = Some d"
    unfolding rb by (simp only: fold_index_edge_frame hn dg)
  show dr: "deref (rebuild_indexes m) d = deref m d"
    by (simp only: deref_def h)
  show "\<exists>r. node_index (rebuild_indexes m) x = Some r
             \<and> n_id (node_heap (rebuild_indexes m) r) = x"
    if "x \<in> set (map n_id (d_nodes (deref m d)))"
  proof -
    from that have "x \<in> set (map (\<lambda>r. n_id (node_heap ?c r)) (o_nodes d))"
      by (simp add: deref_def image_iff)
    from fold_index_node_idx [OF this] obtain r
      where r: "node_index ?n x = Some r" "n_id (node_heap ?c r) = x" by blast
    have "node_index (rebuild_indexes m) x = Some r"
      unfolding rb by (simp only: fold_index_edge_frame r(1))
    moreover have "n_id (node_heap (rebuild_indexes m) r) = x"
      using r(2) by (simp only: h c0)
    ultimately show ?thesis by blast
  qed
  show "list_all (\<lambda>er. edge_index (rebuild_indexes m)
                          (e_id (edge_heap (rebuild_indexes m) er)) = Some er) (o_edges d)"
    if "distinct (map e_id (d_edges (deref m d)))"
  proof -
    from that have di: "distinct (map (\<lambda>r. e_id (edge_heap ?n r)) (o_edges d))"
      by (simp add: deref_def comp_def hn)
    show ?thesis
      unfolding list_all_iff
    proof
      fix er
      assume "er \<in> set (o_edges d)"
      from fold_index_edge_idx [OF di this]
      show "edge_index (rebuild_indexes m) (e_id (edge_heap (rebuild_indexes m) er)) = Some er"
        unfolding h(2) unfolding rb hn(2) .
    qed
  qed
  have "index_set (edges_by_node (rebuild_indexes m)) x
      = index_set (edges_by_node ?n) x
       \<union> set (map e_id (filter (\<lambda>e. e_source e = x \<or> e_target e = x)
            (map (edge_heap ?n) (o_edges d))))"
    unfolding rb by (rule fold_index_edge_ebn)
  also have "\<dots> = set (map e_id (filter (\<lambda>e. e_source e = x \<or> e_target e = x)
            (map (edge_heap m) (o_edges d))))"
    unfolding hn by (simp add: index_set_def)
  finally show "index_set (edges_by_node (rebuild_indexes m)) x
      = set (map e_id (filter (\<lambda>e. e_source e = x \<or> e_target e = x)
          (d_edges (deref (rebuild_indexes m) d))))"
    unfolding dr by (simp add: deref_def)
qed





subsection \<open>Index consistency\<close>

text \<open>
  Claim C2 says that after any sequence of incremental operations the tag index of a tag
  holds exactly the ids of the nodes whose tag list contains it.  The code misses a case:
  \<^verbatim>\<open>bulk_update_tags\<close> removes one occurrence of the tag from the list
  (\<^verbatim>\<open>list.remove\<close>) and discards the node id from the index, so for a node created with
  the tags \<open>[a, a]\<close> the removal of \<open>a\<close> leaves a node that still carries the tag \<open>a\<close>
  and an index entry for \<open>a\<close> that is empty.  \<^const>\<open>rebuild_indexes\<close> on the same store
  puts the node under \<open>a\<close>.
\<close>

theorem bulk_remove_leaves_stale_tag_index:
  "map_option (\<lambda>dg. map (\<lambda>n. (n_id n, n_tags n)) (d_nodes dg)) (current store_untagged)
     = Some [(''n1'', [''a''])]
   \<and> tag_index store_untagged ''a'' = Some []
   \<and> tag_index (rebuild_indexes store_untagged) ''a'' = Some [''n1'']"
  by (simp add: store_untagged_def store_tagged_def store0_def eval_defs bulk_update_tags_def
      tag_one_def remove_tag_def index_discard_def set_discard_def current_def)

subsection \<open>Undo and redo\<close>

text \<open>
  Claim C1 says that \<open>N\<close> undos restore the initial diagram by value and \<open>N\<close> redos
  then restore the diagram after the mutations.  On the two-node sample store, adding an
  edge whose \<^verbatim>\<open>source_side\<close> is the empty string is one mutation; one undo restores the
  initial diagram, but the redo after it yields a diagram that differs from the one the
  mutation produced (the side is unset).
\<close>

theorem redo_unsets_empty_side:
  "run [AddEdge ''4e5f6a7b'' (Some ''a'') (Some ''b'') None None [] (Some []) None] store2
     = Some store3
   \<and> undo_times env0 1 store3 = Some (snd (undo env0 store3))
   \<and> current (snd (undo env0 store3)) = current store2
   \<and> redo_times env0 1 (snd (undo env0 store3)) = Some (snd (redo env0 (snd (undo env0 store3))))
   \<and> current (snd (redo env0 (snd (undo env0 store3)))) \<noteq> current store3"
proof -
  let ?c2 = "demo [plain_node ''a'' ''Alpha'', plain_node ''b'' ''Beta''] []"
  let ?c3 = "demo [plain_node ''a'' ''Alpha'', plain_node ''b'' ''Beta''] [edge3]"
  have run: "run [AddEdge ''4e5f6a7b'' (Some ''a'') (Some ''b'') None None [] (Some []) None] store2
     = Some store3"
    by (simp add: split_beta returned_def store3_def store3_facts(1))
  have n2: "normal_diagram ?c2 = ?c2"
    by (simp add: normal_diagram_def demo_def)
  have n3: "normal_diagram ?c3 \<noteq> ?c3"
    by (simp add: normal_diagram_def demo_def normal_edge_def normal_side_def edge3_def plain_edge_def)
  from undo_step [OF current_store3 store3_facts(5), of env0]
  obtain U where u: "undo env0 store3 = (Inr (Some (normal_diagram ?c2)), U)"
    and cu: "current U = Some (normal_diagram ?c2)"
    and fu: "future U = future store3 @ [to_json_dict ?c3]"
    by blast
  have fu': "future U = [] @ [to_json_dict ?c3]"
    using fu by (simp add: store3_facts)
  from redo_step [OF cu fu', of env0]
  obtain R where r: "redo env0 U = (Inr (Some (normal_diagram ?c3)), R)"
    and cr: "current R = Some (normal_diagram ?c3)"
    by blast
  show ?thesis
    using run u cu r cr n2 n3 by (simp add: current_store2 current_store3)
qed

text \<open>
  Claim C1 as amended.  Let a sequence of \<open>N\<close> operations (add, update or delete of a node
  or an edge, bulk tag update, update of the diagram information) each take effect, with
  \<open>N\<close> at most the history bound, the values passed for the fields being of the fields'
  declared types, floats being finite numbers (the type \<^typ>\<open>op\<close> holds no other call).  Then \<open>N\<close> calls of
  \<^const>\<open>undo\<close> each restore a diagram, and for \<open>N > 0\<close> the manager then holds the initial
  diagram with every edge side that is the empty string unset, and exactly that;
  \<open>N\<close> calls of \<^const>\<open>redo\<close> after them each restore a diagram, and the manager then holds
  the diagram after the operations with every empty-string side unset.  When no edge side
  of the initial (final) diagram is the empty string, the diagram restored is equal to it.
  For \<open>N = 0\<close> nothing is called and the diagram is the one there was.
\<close>

theorem undo_redo_symmetry:
  assumes "run ops m = Some m'" and "int (length ops) \<le> max_history m"
  shows "\<exists>U R. undo_times env (length ops) m' = Some U
           \<and> redo_times env' (length ops) U = Some R
           \<and> current U = (if ops = [] then current m
                            else map_option normal_diagram (current m))
           \<and> current R = (if ops = [] then current m'
                            else map_option normal_diagram (current m'))
           \<and> (clean m \<longrightarrow> current U = current m)
           \<and> (clean m' \<longrightarrow> current R = current m')"
proof (cases "ops = []")
  case True
  with assms have "m' = m" by simp
  then show ?thesis using True by simp
next
  case False
  obtain p ps where ops: "ops = p # ps" using False by (cases ops) auto
  obtain ok m1 where ap: "apply_op p m = (ok, m1)" by (cases "apply_op p m") auto
  with assms(1) ops have "ok" by (auto split: if_splits)
  with op_pushes [of p m m1] ap have "m_diagram m \<noteq> None" by simp
  then obtain c where c: "current m = Some c" by (auto simp: current_def)
  have h0: "history m = history m @ []" by simp
  have b: "int (length ([] :: pydict list)) + int (length ops) \<le> max_history m"
    using assms(2) by simp
  from run_history [OF assms(1) h0 b False c]
  obtain h ds where hist: "history m' = h @ map to_json_dict (c # ds)"
    and len: "Suc (length ds) = length ops" and fut: "future m' = []"
    and cur: "current m' \<noteq> None"
    by auto
  from cur obtain c' where c': "current m' = Some c'" by auto
  have ne: "c # ds \<noteq> []" by simp
  from undo_many [OF c' hist ne, of env]
  obtain U where u: "undo_times env (length ops) m' = Some U"
    and cu: "current U = Some (normal_diagram c)"
    and fu: "future U = rev (map to_json_dict (ds @ [c']))"
    using len fut by auto
  have fu': "future U = [] @ rev (map to_json_dict (ds @ [c']))" using fu by simp
  have ne': "ds @ [c'] \<noteq> []" by simp
  from redo_many [OF cu fu' ne', of env']
  obtain R where r: "redo_times env' (length ops) U = Some R"
    and cr: "current R = Some (normal_diagram c')"
    using len by auto
  have "current U = (if ops = [] then current m else map_option normal_diagram (current m))"
    using cu c False by simp
  moreover have "current R = (if ops = [] then current m'
                                else map_option normal_diagram (current m'))"
    using cr c' False by simp
  moreover have "clean m \<longrightarrow> current U = current m"
    using cu c clean_current [of m] by auto
  moreover have "clean m' \<longrightarrow> current R = current m'"
    using cr c' clean_current [of m'] by auto
  ultimately show ?thesis using u r by blast
qed

theorem undo_redo_symmetry_witness:
  "\<exists>U R. undo_times env0 2 storeW = Some U \<and> redo_times env0 2 U = Some R
      \<and> current U = current store1 \<and> current R = current storeW"
proof -
  have a: "apply_op (AddNode ''1b2c3d4e'' [(''id'', JStr ''b''), (''label'', JStr ''Beta'')]) store1
      = (True, store2)"
    by (simp add: split_beta returned_def store2_def store2_facts(1))
  have b: "apply_op (UpdateNode ''a'' (only_x 5)) store2 = (True, storeW)"
    by (simp add: split_beta storeW_def update_node_def store2_facts returned_def Let_def)
  have run: "run [AddNode ''1b2c3d4e'' [(''id'', JStr ''b''), (''label'', JStr ''Beta'')],
                  UpdateNode ''a'' (only_x 5)] store1 = Some storeW"
    by (simp only: run.simps a b prod.case if_True)
  have bound: "int (length [AddNode ''1b2c3d4e'' [(''id'', JStr ''b''), (''label'', JStr ''Beta'')],
                  UpdateNode ''a'' (only_x 5)]) \<le> max_history store1"
    by (simp add: store1_diagram)
  have cs: "clean store1"
    by (simp add: clean_def current_def deref_def store1_diagram no_empty_side_def)
  have "m_diagram storeW = m_diagram store2"
    by (simp add: storeW_def update_node_def store2_facts Let_def)
  then have cw: "clean storeW"
    by (simp add: clean_def current_def deref_def store2_facts no_empty_side_def)
  have len: "length [AddNode ''1b2c3d4e'' [(''id'', JStr ''b''), (''label'', JStr ''Beta'')],
                  UpdateNode ''a'' (only_x 5)] = 2"
    by simp
  from undo_redo_symmetry [OF run bound, of env0 env0]
  obtain U R where "undo_times env0 2 storeW = Some U" and "redo_times env0 2 U = Some R"
    and "clean store1 \<longrightarrow> current U = current store1"
    and "clean storeW \<longrightarrow> current R = current storeW"
    unfolding len by blast
  with cs cw show ?thesis
    by blast
qed

subsection \<open>Serialization round trip and legacy edge keys\<close>

text \<open>
  Claim C6 says that the round trip of a diagram read from a file with \<^verbatim>\<open>from\<close>/\<^verbatim>\<open>to\<close>
  edges is field-for-field equal to the diagram built with \<^verbatim>\<open>source\<close>/\<^verbatim>\<open>target\<close>.
  It is not when an edge side is the empty string: the file below has two nodes, one edge
  given with \<^verbatim>\<open>from\<close>/\<^verbatim>\<open>to\<close> and \<^verbatim>\<open>source_side\<close> empty, and metadata that is not the
  default.  Both spellings build the same diagram, and reading back what
  \<^const>\<open>to_json_dict\<close> writes gives a different one.
\<close>

theorem roundtrip_drops_empty_side:
  "from_json_dict env0
     (with_edges [legacy_edge (''a'', ''b'', [(''id'', JStr ''e1''), (''source_side'', JStr [])])]
        file0)
     = Inr (rooms [(plain_edge ''e1'' ''a'' ''b'')\<lparr> e_source_side := Some [] \<rparr>])
   \<and> from_json_dict env0
     (with_edges [canonical_edge (''a'', ''b'', [(''id'', JStr ''e1''), (''source_side'', JStr [])])]
        file0)
     = Inr (rooms [(plain_edge ''e1'' ''a'' ''b'')\<lparr> e_source_side := Some [] \<rparr>])
   \<and> from_json_dict env0
        (to_json_dict (rooms [(plain_edge ''e1'' ''a'' ''b'')\<lparr> e_source_side := Some [] \<rparr>]))
     = Inr (rooms [plain_edge ''e1'' ''a'' ''b''])
   \<and> rooms [plain_edge ''e1'' ''a'' ''b'']
     \<noteq> rooms [(plain_edge ''e1'' ''a'' ''b'')\<lparr> e_source_side := Some [] \<rparr>]"
proof -
  have k: "no_endpoint_keys [(''id'', JStr ''e1''), (''source_side'', JStr [])]"
    by (simp add: no_endpoint_keys_def)
  have c: "from_json_dict env0
     (with_edges [canonical_edge (''a'', ''b'', [(''id'', JStr ''e1''), (''source_side'', JStr [])])]
        file0)
     = Inr (rooms [(plain_edge ''e1'' ''a'' ''b'')\<lparr> e_source_side := Some [] \<rparr>])"
    by (simp add: file0_parsed plain_edge_parsed)
  have l: "from_json_dict env0
     (with_edges [legacy_edge (''a'', ''b'', [(''id'', JStr ''e1''), (''source_side'', JStr [])])]
        file0)
     = from_json_dict env0
     (with_edges [canonical_edge (''a'', ''b'', [(''id'', JStr ''e1''), (''source_side'', JStr [])])]
        file0)"
    using parse_edges_legacy [of "[(''a'', ''b'', [(''id'', JStr ''e1''), (''source_side'', JStr [])])]"
        "edge_hex env0" 0] k
    by (intro from_json_with_edges) simp
  have r: "normal_diagram (rooms [(plain_edge ''e1'' ''a'' ''b'')\<lparr> e_source_side := Some [] \<rparr>])
      = rooms [plain_edge ''e1'' ''a'' ''b'']"
    by (simp add: normal_diagram_def rooms_def normal_edge_def normal_side_def plain_edge_def)
  have d: "rooms [plain_edge ''e1'' ''a'' ''b'']
     \<noteq> rooms [(plain_edge ''e1'' ''a'' ''b'')\<lparr> e_source_side := Some [] \<rparr>]"
    by (simp add: rooms_def plain_edge_def)
  show ?thesis
    using c l d by (simp add: from_to_json r)
qed

text \<open>
  Claim C6 as amended.  Let the edges of a diagram file be given with \<^verbatim>\<open>from\<close>/\<^verbatim>\<open>to\<close>
  (their other entries naming no endpoint) and let the file parse to the diagram \<open>dg\<close>.
  Then the file with \<^verbatim>\<open>source\<close>/\<^verbatim>\<open>target\<close> instead, and the one with
  \<^verbatim>\<open>from_node\<close>/\<^verbatim>\<open>to_node\<close>, parse to the same \<open>dg\<close>; reading back
  \<^const>\<open>to_json_dict\<close> of \<open>dg\<close> succeeds and gives \<open>dg\<close> with every empty-string edge side
  unset, hence \<open>dg\<close> itself when no edge side is the empty string.  In any edge dict the
  canonical key wins when present; otherwise \<^verbatim>\<open>from\<close> (\<^verbatim>\<open>to\<close>) is used, and
  \<^verbatim>\<open>from_node\<close> (\<^verbatim>\<open>to_node\<close>) only when that is absent as well.
\<close>

theorem roundtrip_legacy_edges:
  assumes "list_all (\<lambda>x. no_endpoint_keys (snd (snd x))) xs"
    and "from_json_dict env (with_edges (map legacy_edge xs) data) = Inr dg"
  shows "from_json_dict env (with_edges (map canonical_edge xs) data) = Inr dg
       \<and> from_json_dict env (with_edges (map legacy_node_edge xs) data) = Inr dg
       \<and> from_json_dict env' (to_json_dict dg) = Inr (normal_diagram dg)
       \<and> (no_empty_side dg \<longrightarrow> from_json_dict env' (to_json_dict dg) = Inr dg)
       \<and> map_of (convert_legacy_fields e) ''source''
           = (case map_of e ''source'' of
                Some v \<Rightarrow> Some v
              | None \<Rightarrow> (case map_of e ''from'' of
                           Some v \<Rightarrow> Some v | None \<Rightarrow> map_of e ''from_node''))
       \<and> map_of (convert_legacy_fields e) ''target''
           = (case map_of e ''target'' of
                Some v \<Rightarrow> Some v
              | None \<Rightarrow> (case map_of e ''to'' of
                           Some v \<Rightarrow> Some v | None \<Rightarrow> map_of e ''to_node''))"
proof -
  have a: "from_json_dict env (with_edges (map legacy_edge xs) data)
      = from_json_dict env (with_edges (map canonical_edge xs) data)"
    by (rule from_json_with_edges) (rule parse_edges_legacy [OF assms(1)])
  have b: "from_json_dict env (with_edges (map legacy_node_edge xs) data)
      = from_json_dict env (with_edges (map canonical_edge xs) data)"
    by (rule from_json_with_edges) (rule parse_edges_legacy_node [OF assms(1)])
  have c: "no_empty_side dg \<Longrightarrow> normal_diagram dg = dg"
    by (rule normal_diagram_same)
  have d: "from_json_dict env (with_edges (map canonical_edge xs) data) = Inr dg"
    using a assms(2) by simp
  have e: "from_json_dict env (with_edges (map legacy_node_edge xs) data) = Inr dg"
    using b d by simp
  show ?thesis
    using c d e by (simp add: from_to_json convert_source convert_target)
qed

theorem roundtrip_legacy_edges_witness:
  "from_json_dict env0 (with_edges [legacy_edge (''a'', ''b'', [(''id'', JStr ''e1'')])] file0)
     = Inr (rooms [plain_edge ''e1'' ''a'' ''b''])
   \<and> from_json_dict env0 (with_edges [canonical_edge (''a'', ''b'', [(''id'', JStr ''e1'')])] file0)
     = Inr (rooms [plain_edge ''e1'' ''a'' ''b''])
   \<and> from_json_dict env0 (to_json_dict (rooms [plain_edge ''e1'' ''a'' ''b'']))
     = Inr (rooms [plain_edge ''e1'' ''a'' ''b''])"
proof -
  have k: "list_all (\<lambda>x. no_endpoint_keys (snd (snd x))) [(''a'', ''b'', [(''id'', JStr ''e1'')])]"
    by (simp add: no_endpoint_keys_def)
  have c: "from_json_dict env0
      (with_edges (map canonical_edge [(''a'', ''b'', [(''id'', JStr ''e1'')])]) file0)
     = Inr (rooms [plain_edge ''e1'' ''a'' ''b''])"
    by (simp add: file0_parsed plain_edge_parsed)
  have l: "from_json_dict env0
      (with_edges (map legacy_edge [(''a'', ''b'', [(''id'', JStr ''e1'')])]) file0)
     = Inr (rooms [plain_edge ''e1'' ''a'' ''b''])"
  proof -
    have "parse_edges (edge_hex env0) 0 (map legacy_edge [(''a'', ''b'', [(''id'', JStr ''e1'')])])
        = parse_edges (edge_hex env0) 0
            (map canonical_edge [(''a'', ''b'', [(''id'', JStr ''e1'')])])"
      by (rule parse_edges_legacy [OF k])
    from from_json_with_edges [OF this] c show ?thesis by simp
  qed
  have s: "no_empty_side (rooms [plain_edge ''e1'' ''a'' ''b''])"
    by (simp add: no_empty_side_def rooms_def plain_edge_def)
  show ?thesis
    using roundtrip_legacy_edges [OF k l, of env0 "[]"] s l
    by (simp add: normal_diagram_same [OF s])
qed

subsection \<open>Operations on an id that is not there\<close>

text \<open>
  Claim C3 says that each of the four operations fails with a not-found error on an id
  the diagram does not hold.  The manager raises nothing there: on the sample store, whose
  only node is \<open>a\<close> and which has no edge, the calls on the id \<open>ghost\<close> return
  \<^verbatim>\<open>None\<close> and \<^verbatim>\<open>False\<close> as ordinary values.
\<close>

theorem missing_id_returns_normally:
  "fst (update_node ''ghost'' no_node_update store1) = Inr None
   \<and> fst (delete_node ''ghost'' store1) = Inr False
   \<and> fst (update_edge ''ghost'' no_edge_update store1) = Inr None
   \<and> fst (delete_edge ''ghost'' store1) = Inr False"
  by (simp add: update_node_def delete_node_def update_edge_def delete_edge_def store1_diagram)

text \<open>
  Claim C3 as amended.  With a diagram open whose index keys are the ids of its nodes and
  of its edges, on an id the diagram does not hold \<^const>\<open>update_node\<close> and
  \<^const>\<open>update_edge\<close> return \<^verbatim>\<open>None\<close>, \<^const>\<open>delete_node\<close> and \<^const>\<open>delete_edge\<close>
  return \<^verbatim>\<open>False\<close>, no exception is raised, and the manager is left exactly as it was:
  no snapshot is pushed, the redo stack and the dirty flag are kept.
\<close>

theorem missing_id_not_found:
  assumes "m_diagram m = Some d"
    and "dom (node_index m) = set (map n_id (d_nodes (deref m d)))"
    and "dom (edge_index m) = set (map e_id (d_edges (deref m d)))"
    and "i \<notin> set (map n_id (d_nodes (deref m d)))"
    and "j \<notin> set (map e_id (d_edges (deref m d)))"
  shows "update_node i kw m = (Inr None, m) \<and> delete_node i m = (Inr False, m)
       \<and> update_edge j ekw m = (Inr None, m) \<and> delete_edge j m = (Inr False, m)"
proof -
  have "i \<notin> dom (node_index m)" "j \<notin> dom (edge_index m)"
    using assms by simp_all
  then have "node_index m i = None" "edge_index m j = None"
    by (simp_all add: domIff)
  then show ?thesis using assms(1)
    by (simp add: update_node_def delete_node_def update_edge_def delete_edge_def)
qed

theorem missing_id_not_found_witness:
  "update_node ''ghost'' (only_x 5) store1 = (Inr None, store1)
   \<and> delete_node ''ghost'' store1 = (Inr False, store1)
   \<and> update_edge ''ghost'' no_edge_update store1 = (Inr None, store1)
   \<and> delete_edge ''ghost'' store1 = (Inr False, store1)"
proof -
  let ?d = "\<lparr> o_id = ''diagram-89abcdef'', o_name = ''Demo'', o_nodes = [0::nat],
      o_edges = [], o_metadata = meta0 \<rparr>"
  have d: "m_diagram store1 = Some ?d"
    by (rule store1_diagram)
  have n: "dom (node_index store1) = set (map n_id (d_nodes (deref store1 ?d)))"
    by (simp add: deref_def store1_diagram plain_node_def)
  have e: "dom (edge_index store1) = set (map e_id (d_edges (deref store1 ?d)))"
    by (simp add: deref_def store1_diagram)
  have i: "''ghost'' \<notin> set (map n_id (d_nodes (deref store1 ?d)))"
    by (simp add: deref_def store1_diagram plain_node_def)
  have j: "''ghost'' \<notin> set (map e_id (d_edges (deref store1 ?d)))"
    by (simp add: deref_def)
  show ?thesis
    by (rule missing_id_not_found [OF d n e i j])
qed

subsection \<open>Partial update\<close>





subsection \<open>Layout boundaries\<close>

text \<open>
  Claim C9.  When fewer than two nodes of the list have their id among \<open>node_ids\<close>,
  \<^const>\<open>core_align_nodes\<close> returns \<open>False\<close> and the node list it leaves behind is the one it
  was given, so no position changed; the same holds for \<^const>\<open>core_distribute_nodes\<close> when
  fewer than three nodes match.  This is so for every alignment and axis keyword.
\<close>

theorem layout_too_few_targets:
  "(length (filter (\<lambda>n. n_id n \<in> set node_ids) nodes) < 2 \<longrightarrow>
      core_align_nodes nodes node_ids alignment = (False, nodes))
   \<and> (length (filter (\<lambda>n. n_id n \<in> set node_ids) nodes) < 3 \<longrightarrow>
      core_distribute_nodes nodes node_ids axis = (False, nodes))"
  using align_few [of node_ids nodes alignment] distribute_few [of node_ids nodes axis]
  by blast

theorem layout_too_few_targets_witness:
  "core_align_nodes [plain_node ''a'' ''Alpha'', plain_node ''b'' ''Beta''] [''a''] ''left''
     = (False, [plain_node ''a'' ''Alpha'', plain_node ''b'' ''Beta''])
   \<and> core_distribute_nodes [plain_node ''a'' ''Alpha'', plain_node ''b'' ''Beta'']
       [''a'', ''b''] ''horizontal''
     = (False, [plain_node ''a'' ''Alpha'', plain_node ''b'' ''Beta''])"
proof -
  have one: "length (filter (\<lambda>n. n_id n \<in> set [''a''])
      [plain_node ''a'' ''Alpha'', plain_node ''b'' ''Beta'']) < 2"
    by (simp add: plain_node_def)
  have two: "length (filter (\<lambda>n. n_id n \<in> set [''a'', ''b''])
      [plain_node ''a'' ''Alpha'', plain_node ''b'' ''Beta'']) < 3"
    by (simp add: plain_node_def)
  show ?thesis
    using one two
      layout_too_few_targets [of "[''a'']"
        "[plain_node ''a'' ''Alpha'', plain_node ''b'' ''Beta'']" "''left''" "''horizontal''"]
      layout_too_few_targets [of "[''a'', ''b'']"
        "[plain_node ''a'' ''Alpha'', plain_node ''b'' ''Beta'']" "''left''" "''horizontal''"]
    by blast
qed

subsection \<open>Layout calls and the history\<close>

text \<open>
  Claim C10.  With a diagram open, \<^const>\<open>align_nodes\<close> and \<^const>\<open>distribute_nodes\<close> of the
  manager append the snapshot of the diagram as it was before the call to the history
  (which is then trimmed to the bound, dropping its oldest entry when it is too long) and
  empty the redo stack, whatever the layout function answers.  In particular, when fewer
  than two (three) nodes match, the call returns \<open>False\<close> and the diagram is unchanged,
  and the snapshot was pushed all the same; with a bound of at least one it is the top of
  the history.
\<close>

theorem layout_pushes_history:
  assumes "m_diagram m = Some d"
  shows "history (snd (align_nodes node_ids alignment m))
           = trim (max_history m) (history m @ [to_json_dict (deref m d)])
       \<and> future (snd (align_nodes node_ids alignment m)) = []
       \<and> history (snd (distribute_nodes node_ids axis m))
           = trim (max_history m) (history m @ [to_json_dict (deref m d)])
       \<and> future (snd (distribute_nodes node_ids axis m)) = []
       \<and> (length (filter (\<lambda>n. n_id n \<in> set node_ids) (d_nodes (deref m d))) < 2 \<longrightarrow>
            fst (align_nodes node_ids alignment m) = False
          \<and> current (snd (align_nodes node_ids alignment m)) = current m)
       \<and> (length (filter (\<lambda>n. n_id n \<in> set node_ids) (d_nodes (deref m d))) < 3 \<longrightarrow>
            fst (distribute_nodes node_ids axis m) = False
          \<and> current (snd (distribute_nodes node_ids axis m)) = current m)
       \<and> (1 \<le> max_history m \<longrightarrow>
            last (history (snd (align_nodes node_ids alignment m))) = to_json_dict (deref m d)
          \<and> last (history (snd (distribute_nodes node_ids axis m))) = to_json_dict (deref m d))"
proof -
  let ?snap = "to_json_dict (deref m d)"
  have nodes: "d_nodes (deref m d) = map (node_heap m) (o_nodes d)"
    by (simp add: deref_def)
  have a: "length (filter (\<lambda>n. n_id n \<in> set node_ids) (d_nodes (deref m d))) < 2 \<Longrightarrow>
      align_nodes node_ids alignment m = (False, save_to_history m)"
    unfolding align_nodes_def nodes
    by (rule layout_call_fail [OF assms]) (simp add: align_few)
  have b: "length (filter (\<lambda>n. n_id n \<in> set node_ids) (d_nodes (deref m d))) < 3 \<Longrightarrow>
      distribute_nodes node_ids axis m = (False, save_to_history m)"
    unfolding distribute_nodes_def nodes
    by (rule layout_call_fail [OF assms]) (simp add: distribute_few)
  have l: "1 \<le> max_history m \<Longrightarrow> last (trim (max_history m) (history m @ [?snap])) = ?snap"
    by (cases "history m") (simp_all add: trim_def last_tl)
  show ?thesis
    using a b l
    by (auto simp add: align_nodes_def distribute_nodes_def layout_call_stacks
        save_stacks [OF assms])
qed

theorem layout_pushes_history_witness:
  "fst (align_nodes [''a''] ''left'' store1) = False
   \<and> current (snd (align_nodes [''a''] ''left'' store1)) = current store1
   \<and> future (snd (align_nodes [''a''] ''left'' store1)) = []
   \<and> length (history (snd (align_nodes [''a''] ''left'' store1))) = 2
   \<and> last (history (snd (align_nodes [''a''] ''left'' store1)))
       = to_json_dict \<lparr> d_id = ''diagram-89abcdef'', d_name = ''Demo'',
           d_nodes = [plain_node ''a'' ''Alpha''], d_edges = [], d_metadata = meta0 \<rparr>
   \<and> fst (distribute_nodes [''a''] ''horizontal'' store1) = False
   \<and> length (history (snd (distribute_nodes [''a''] ''horizontal'' store1))) = 2"
proof -
  let ?d = "\<lparr> o_id = ''diagram-89abcdef'', o_name = ''Demo'', o_nodes = [0::nat],
      o_edges = [], o_metadata = meta0 \<rparr>"
  have d: "m_diagram store1 = Some ?d"
    by (rule store1_diagram)
  have v: "deref store1 ?d = \<lparr> d_id = ''diagram-89abcdef'', d_name = ''Demo'',
      d_nodes = [plain_node ''a'' ''Alpha''], d_edges = [], d_metadata = meta0 \<rparr>"
    by (simp add: deref_def store1_diagram)
  show ?thesis
    using layout_pushes_history [OF d, of "[''a'']" "''left''" "''horizontal''"]
    by (simp add: v store1_diagram trim_def plain_node_def)
qed

end
